theory Spec2Isabelle
  imports Complex_Main
begin

section \<open>Shared data model (types/geofencing)\<close>

text \<open>
  The engine is written in TypeScript. Its \<open>number\<close> values are modelled as \<open>real\<close> where
  they are coordinates, risk levels or averages and as \<open>nat\<close>/\<open>int\<close> where they are
  counters, scores or clock readings in milliseconds. A thrown exception is the \<open>Inl\<close>
  branch of a sum.
\<close>

datatype ZoneType = SAFE | CAUTION | RESTRICTED | HIGH_RISK | EMERGENCY | TOURIST_FRIENDLY

datatype ZoneStatus = ACTIVE | INACTIVE | MAINTENANCE

datatype GeofenceEventType = ENTER | EXIT | INSIDE | OUTSIDE

datatype AlertLevel = low | medium | high | critical

datatype error =
    ZoneValidationError string
  | LocationValidationError string
  | Tile38ConnectionError string
  | GeofencingError string
  | Error string
  | TypeError string

record Coordinate =
  latitude :: real
  longitude :: real

record ZoneMetadata =
  riskLevel :: real
  createdBy :: string

record Zone =
  z_id :: string
  z_name :: string
  z_type :: ZoneType
  z_status :: ZoneStatus
  z_coordinates :: "Coordinate list"
  z_metadata :: "ZoneMetadata option"

text \<open>Template literals render a number in decimal.\<close>

definition digit :: "nat \<Rightarrow> char" where
  "digit d = ''0123456789'' ! d"

fun decimal :: "nat \<Rightarrow> string" where
  "decimal n =
     (if n < 10 then [digit n]
      else decimal (n div 10) @ [digit (n mod 10)])"

declare decimal.simps [simp del]

section \<open>Tile38Service: zone write\<close>

record Tile38Service =
  isConnected :: bool
  requestCount :: nat
  errorCount :: nat

text \<open>
  \<open>validateZone\<close>: the \<open>forEach\<close> over the vertices throws at the first vertex for which
  \<open>!coord.latitude || !coord.longitude\<close> holds; on a number, \<open>!x\<close> is true exactly for zero.
\<close>

fun validateZone_vertices :: "nat \<Rightarrow> Coordinate list \<Rightarrow> error option" where
  "validateZone_vertices index [] = None"
| "validateZone_vertices index (coord # rest) =
     (if latitude coord = 0 \<or> longitude coord = 0
      then Some (ZoneValidationError (''Invalid coordinate at index '' @ decimal index))
      else validateZone_vertices (Suc index) rest)"

definition validateZone :: "Zone \<Rightarrow> error option" where
  "validateZone zone =
     (if z_id zone = [] then Some (ZoneValidationError ''Invalid or missing zone ID'')
      else if length (z_coordinates zone) < 3
        then Some (ZoneValidationError ''Zone must have at least 3 coordinates'')
      else validateZone_vertices 0 (z_coordinates zone))"

text \<open>
  \<open>executeCommand\<close>: the outcome of the command sent to the server is an input
  (\<open>Inl\<close> when the client call throws or times out).
\<close>

definition executeCommand ::
  "Tile38Service \<Rightarrow> string \<Rightarrow> (string + 'a) \<Rightarrow> (error + 'a) \<times> Tile38Service" where
  "executeCommand svc operation outcome =
     (if \<not> isConnected svc then (Inl (Tile38ConnectionError ''Not connected to Tile38 server''), svc)
      else (case outcome of
              Inr result \<Rightarrow> (Inr result, svc\<lparr>requestCount := requestCount svc + 1\<rparr>)
            | Inl msg \<Rightarrow>
                (Inl (Tile38ConnectionError (operation @ '' failed'')),
                 svc\<lparr>requestCount := requestCount svc + 1, errorCount := errorCount svc + 1\<rparr>)))"

definition Tile38Service_createZone ::
  "Tile38Service \<Rightarrow> (string + unit) \<Rightarrow> Zone \<Rightarrow> (error + unit) \<times> Tile38Service" where
  "Tile38Service_createZone svc outcome zone =
     (case validateZone zone of
        Some e \<Rightarrow> (Inl e, svc)
      | None \<Rightarrow> executeCommand svc ''createZone'' outcome)"

section \<open>ZoneManagementService: zones read back from the spatial index\<close>

text \<open>
  A reply of the index is taken as already split: \<open>r_object\<close> is \<open>result[1]\<close>, the GeoJSON
  text, and \<open>r_fields\<close> is \<open>result[2]\<close> when the reply has one. \<open>JSON.parse\<close> and
  \<open>parseInt\<close> are library functions: the geometry parser is a parameter
  (\<open>None\<close> when it throws) and \<open>f_riskLevel\<close> holds what \<open>parseInt\<close> returned
  (\<open>None\<close> for \<open>NaN\<close>).
\<close>

record Tile38Fields =
  f_name :: "string option"
  f_type :: "ZoneType option"
  f_status :: "ZoneStatus option"
  f_riskLevel :: "int option"
  f_createdBy :: "string option"

record Tile38Reply =
  r_object :: string
  r_fields :: "Tile38Fields option"

definition noFields :: Tile38Fields where
  "noFields = \<lparr>f_name = None, f_type = None, f_status = None, f_riskLevel = None,
               f_createdBy = None\<rparr>"

definition parseFields :: "Tile38Reply \<Rightarrow> Tile38Fields" where
  "parseFields result = (case r_fields result of None \<Rightarrow> noFields | Some fieldArray \<Rightarrow> fieldArray)"

text \<open>\<open>s || d\<close> on an optional string: the default replaces a missing or empty string.\<close>

definition str_or :: "string option \<Rightarrow> string \<Rightarrow> string" where
  "str_or s d = (case s of None \<Rightarrow> d | Some v \<Rightarrow> if v = [] then d else v)"

definition parseZoneFromTile38 ::
  "(string \<Rightarrow> Coordinate list option) \<Rightarrow> string \<Rightarrow> Tile38Reply \<Rightarrow> Zone option" where
  "parseZoneFromTile38 parseGeometry zoneId result =
     (let flds = parseFields result in
      case parseGeometry (r_object result) of
        None \<Rightarrow> None
      | Some coordinates \<Rightarrow>
          if coordinates = [] then None
          else Some
            \<lparr>z_id = zoneId,
             z_name = str_or (f_name flds) [],
             z_type = (case f_type flds of None \<Rightarrow> SAFE | Some t \<Rightarrow> t),
             z_status = (case f_status flds of None \<Rightarrow> ACTIVE | Some st \<Rightarrow> st),
             z_coordinates = coordinates,
             z_metadata = Some
               \<lparr>riskLevel =
                  (case f_riskLevel flds of
                     None \<Rightarrow> 5
                   | Some n \<Rightarrow> if n = 0 then 5 else real_of_int n),
                createdBy = str_or (f_createdBy flds) []\<rparr>\<rparr>)"

text \<open>
  \<open>parseZonesFromTile38Results\<close> walks the flat array \<open>[id, object, id, object, ...]\<close> two
  entries at a time and parses each object without fields.
\<close>

fun parseZonesFromTile38Results ::
  "(string \<Rightarrow> Coordinate list option) \<Rightarrow> string list \<Rightarrow> Zone list" where
  "parseZonesFromTile38Results parseGeometry (zoneId # zoneData # rest) =
     (if zoneId \<noteq> [] \<and> zoneData \<noteq> [] then
        (case parseZoneFromTile38 parseGeometry zoneId \<lparr>r_object = zoneData, r_fields = None\<rparr> of
           Some zone \<Rightarrow> zone # parseZonesFromTile38Results parseGeometry rest
         | None \<Rightarrow> parseZonesFromTile38Results parseGeometry rest)
      else parseZonesFromTile38Results parseGeometry rest)"
| "parseZonesFromTile38Results parseGeometry _ = []"

text \<open>
  \<open>getActiveZones(limit)\<close> is \<open>searchZones({status: ACTIVE, limit})\<close>: a \<open>SCAN\<close> whose
  objects are an input here, then \<open>applyZoneFilters\<close> with the status filter and the
  final \<open>slice(0, limit)\<close>, skipped when \<open>limit\<close> is 0.
\<close>

definition getActiveZones ::
  "(string \<Rightarrow> Coordinate list option) \<Rightarrow> string list \<Rightarrow> nat \<Rightarrow> Zone list" where
  "getActiveZones parseGeometry objects limit =
     (let zones = parseZonesFromTile38Results parseGeometry objects;
          filtered = filter (\<lambda>zone. z_status zone = ACTIVE) zones
      in if limit \<noteq> 0 then take limit filtered else filtered)"

section \<open>GeofenceWebhookService\<close>

record LocationPoint =
  lp_userId :: string
  lp_coordinates :: Coordinate
  lp_timestamp :: int

record GeofenceEvent =
  e_id :: string
  e_userId :: string
  e_zoneId :: string
  e_zoneName :: "string option"
  e_zoneType :: "ZoneType option"
  e_eventType :: GeofenceEventType
  e_location :: LocationPoint
  e_timestamp :: int
  e_processed :: bool
  e_alertLevel :: "AlertLevel option"

record WebhookConfig =
  w_id :: string
  w_name :: string
  w_url :: string
  w_secret :: "string option"
  w_enabled :: bool
  w_zoneIds :: "string list option"
  w_zoneTypes :: "ZoneType list option"
  w_eventTypes :: "GeofenceEventType list"

record WebhookPayload =
  p_event :: GeofenceEvent
  p_zone :: Zone
  p_userId :: string
  p_timestamp :: int
  p_signature :: "string option"

record WebhookDeliveryResult =
  d_webhookId :: string
  d_url :: string
  d_success :: bool
  d_statusCode :: "nat option"
  d_responseTime :: int
  d_error :: "string option"
  d_retryCount :: nat

record DeliveryStats =
  eventsDetected :: nat
  webhooksDelivered :: nat
  deliveryFailures :: nat
  averageDeliveryTime :: real

record WebhookService =
  webhooks :: "WebhookConfig list"
  deliveryQueue :: "(GeofenceEvent \<times> WebhookConfig list) list"
  stats :: DeliveryStats
  maxRetries :: nat
  retryDelay :: nat
  batchSize :: nat

subsection \<open>Matching\<close>

text \<open>
  \<open>getApplicableWebhooks\<close>: the filter callback, test by test. An optional array is
  truthy whenever it is present, also when it is empty.
\<close>

definition applicable :: "GeofenceEvent \<Rightarrow> WebhookConfig \<Rightarrow> bool" where
  "applicable event webhook =
     (if \<not> w_enabled webhook then False
      else if (case w_zoneIds webhook of
                 Some zoneIds \<Rightarrow> e_zoneId event \<notin> set zoneIds
               | None \<Rightarrow> False) then False
      else if (case w_zoneTypes webhook of
                 Some zoneTypes \<Rightarrow>
                   (case e_zoneType event of
                      Some t \<Rightarrow> t \<notin> set zoneTypes
                    | None \<Rightarrow> True)
               | None \<Rightarrow> False) then False
      else if e_eventType event \<notin> set (w_eventTypes webhook) then False
      else True)"

definition getApplicableWebhooks :: "WebhookService \<Rightarrow> GeofenceEvent \<Rightarrow> WebhookConfig list" where
  "getApplicableWebhooks svc event = filter (applicable event) (webhooks svc)"

definition processGeofenceEvent :: "WebhookService \<Rightarrow> GeofenceEvent \<Rightarrow> WebhookService" where
  "processGeofenceEvent svc event =
     (let applicableWebhooks = getApplicableWebhooks svc event in
      if length applicableWebhooks > 0 then
        svc\<lparr>deliveryQueue := deliveryQueue svc @ [(event, applicableWebhooks)],
            stats := (stats svc)\<lparr>eventsDetected := eventsDetected (stats svc) + 1\<rparr>\<rparr>
      else svc)"

text \<open>
  The matching rule in the words of the specification, for comparison: a filter is empty
  when it is absent or has no element.
\<close>

definition filter_empty :: "'a list option \<Rightarrow> bool" where
  "filter_empty f = (case f of None \<Rightarrow> True | Some xs \<Rightarrow> xs = [])"

definition spec_matches :: "GeofenceEvent \<Rightarrow> WebhookConfig \<Rightarrow> bool" where
  "spec_matches event webhook =
     (w_enabled webhook \<and>
      e_eventType event \<in> set (w_eventTypes webhook) \<and>
      (filter_empty (w_zoneIds webhook) \<or>
         e_zoneId event \<in> set (case w_zoneIds webhook of None \<Rightarrow> [] | Some xs \<Rightarrow> xs)) \<and>
      (filter_empty (w_zoneTypes webhook) \<or>
         (case e_zoneType event of
            None \<Rightarrow> False
          | Some t \<Rightarrow> t \<in> set (case w_zoneTypes webhook of None \<Rightarrow> [] | Some xs \<Rightarrow> xs))))"

subsection \<open>The periodic sweep\<close>

definition calculateAlertLevel :: "Zone \<Rightarrow> AlertLevel" where
  "calculateAlertLevel zone =
     (let r = (case z_metadata zone of
                 None \<Rightarrow> 5
               | Some m \<Rightarrow> if riskLevel m = 0 then 5 else riskLevel m)
      in if r \<ge> 9 then critical
         else if r \<ge> 7 then high
         else if r \<ge> 5 then medium
         else low)"

text \<open>The table of the specification, on a risk level.\<close>

definition alertTable :: "real \<Rightarrow> AlertLevel" where
  "alertTable r =
     (if r \<ge> 9 then critical else if r \<ge> 7 then high else if r \<ge> 5 then medium else low)"

definition parseLocationFromTile38Data ::
  "(string \<Rightarrow> Coordinate option) \<Rightarrow> int \<Rightarrow> string \<Rightarrow> string \<Rightarrow> LocationPoint" where
  "parseLocationFromTile38Data parsePoint now userId locationData =
     (case parsePoint locationData of
        Some c \<Rightarrow> \<lparr>lp_userId = userId, lp_coordinates = c, lp_timestamp = now\<rparr>
      | None \<Rightarrow>
          \<lparr>lp_userId = userId, lp_coordinates = \<lparr>latitude = 0, longitude = 0\<rparr>,
           lp_timestamp = now\<rparr>)"

text \<open>
  The event literal of \<open>processZoneIntersections\<close>; \<open>now\<close> is the reading of \<open>Date.now()\<close>
  (a natural number of milliseconds) taken while the literal is built.
\<close>

definition newEvent :: "(string \<Rightarrow> Coordinate option) \<Rightarrow> nat \<Rightarrow> Zone \<Rightarrow> string \<Rightarrow> string \<Rightarrow> GeofenceEvent" where
  "newEvent parsePoint now zone userId locationData =
     \<lparr>e_id = z_id zone @ ''-'' @ userId @ ''-'' @ decimal now,
      e_userId = userId,
      e_zoneId = z_id zone,
      e_zoneName = Some (z_name zone),
      e_zoneType = Some (z_type zone),
      e_eventType = INSIDE,
      e_location = parseLocationFromTile38Data parsePoint (int now) userId locationData,
      e_timestamp = int now,
      e_processed = False,
      e_alertLevel = Some (calculateAlertLevel zone)\<rparr>"

text \<open>
  \<open>processZoneIntersections\<close> walks \<open>users\<close> two entries at a time (\<open>i += 2\<close>); \<open>clock i\<close>
  is the clock reading in the iteration at index \<open>i\<close>. It returns the events it built,
  each of which it hands to \<open>processGeofenceEvent\<close>.
\<close>

fun processZoneIntersections ::
  "(string \<Rightarrow> Coordinate option) \<Rightarrow> (nat \<Rightarrow> nat) \<Rightarrow> Zone \<Rightarrow> nat \<Rightarrow> string list \<Rightarrow>
   WebhookService \<Rightarrow> GeofenceEvent list \<times> WebhookService" where
  "processZoneIntersections parsePoint clock zone i (userId # locationData # rest) svc =
     (if userId \<noteq> [] \<and> locationData \<noteq> [] then
        (let event = newEvent parsePoint (clock i) zone userId locationData;
             (events, svc') =
               processZoneIntersections parsePoint clock zone (i + 2) rest
                 (processGeofenceEvent svc event)
         in (event # events, svc'))
      else processZoneIntersections parsePoint clock zone (i + 2) rest svc)"
| "processZoneIntersections parsePoint clock zone i _ svc = ([], svc)"

text \<open>
  \<open>checkGeofenceEvents\<close>: for each active zone the reply of \<open>WITHIN\<close> is an input:
  \<open>Inl\<close> when \<open>executeRead\<close> throws (the surrounding \<open>try\<close> then ends the sweep),
  \<open>Inr None\<close> when the reply is not an array of more than one element, else
  \<open>Inr (Some users)\<close> with \<open>users = reply[1]\<close>. \<open>k\<close> counts the zones.
\<close>

fun checkZones ::
  "(string \<Rightarrow> Coordinate option) \<Rightarrow> (nat \<Rightarrow> nat \<Rightarrow> nat) \<Rightarrow> (Zone \<Rightarrow> error + string list option) \<Rightarrow>
   nat \<Rightarrow> Zone list \<Rightarrow> WebhookService \<Rightarrow> (Zone \<times> GeofenceEvent) list \<times> WebhookService" where
  "checkZones parsePoint clock usersIn k [] svc = ([], svc)"
| "checkZones parsePoint clock usersIn k (zone # zones) svc =
     (case usersIn zone of
        Inl e \<Rightarrow> ([], svc)
      | Inr None \<Rightarrow> checkZones parsePoint clock usersIn (Suc k) zones svc
      | Inr (Some users) \<Rightarrow>
          (let (events, svc1) = processZoneIntersections parsePoint (clock k) zone 0 users svc;
               (more, svc2) = checkZones parsePoint clock usersIn (Suc k) zones svc1
           in (map (\<lambda>e. (zone, e)) events @ more, svc2)))"

definition checkGeofenceEvents ::
  "(string \<Rightarrow> Coordinate list option) \<Rightarrow> (string \<Rightarrow> Coordinate option) \<Rightarrow> (nat \<Rightarrow> nat \<Rightarrow> nat) \<Rightarrow>
   string list \<Rightarrow> (Zone \<Rightarrow> error + string list option) \<Rightarrow> WebhookService \<Rightarrow>
   (Zone \<times> GeofenceEvent) list \<times> WebhookService" where
  "checkGeofenceEvents parseGeometry parsePoint clock objects usersIn svc =
     checkZones parsePoint clock usersIn 0
       (getActiveZones parseGeometry objects (batchSize svc)) svc"


subsection \<open>Delivery\<close>

text \<open>
  The HTTP client is the environment. \<open>post env url payload k\<close> is what the \<open>k\<close>-th call
  of \<open>axios.post\<close> in one delivery does: \<open>Inr status\<close> when it resolves, \<open>Inl (message,
  status)\<close> when it throws (a transport error has no status). \<open>finishedAt env k\<close> is the
  clock reading when that call has returned.
\<close>

record HttpEnv =
  post :: "string \<Rightarrow> WebhookPayload \<Rightarrow> nat \<Rightarrow> (string \<times> nat option) + nat"
  finishedAt :: "nat \<Rightarrow> int"

definition updateDeliveryStats :: "DeliveryStats \<Rightarrow> int \<Rightarrow> DeliveryStats" where
  "updateDeliveryStats st responseTime =
     (let count = webhooksDelivered st + 1 in
      st\<lparr>averageDeliveryTime :=
           (averageDeliveryTime st * real (webhooksDelivered st) + real_of_int responseTime)
             / real count\<rparr>)"

text \<open>
  \<open>deliverWebhook\<close>: the \<open>while (retryCount <= maxRetries)\<close> loop, one iteration per call
  of the function below. Between a failed attempt and the next one the code waits
  \<open>retryDelay * retryCount\<close> milliseconds; the wait changes no state.
\<close>

function deliverWebhook_loop ::
  "WebhookService \<Rightarrow> HttpEnv \<Rightarrow> WebhookConfig \<Rightarrow> WebhookPayload \<Rightarrow> bool \<Rightarrow> int \<Rightarrow> nat \<Rightarrow>
   (error + WebhookDeliveryResult) \<times> WebhookService" where
  "deliverWebhook_loop svc env webhook payload isTest startTime retryCount =
     (if retryCount \<le> maxRetries svc then
        (case post env (w_url webhook) payload retryCount of
           Inr status \<Rightarrow>
             (let responseTime = finishedAt env retryCount - startTime;
                  svc1 = svc\<lparr>stats := updateDeliveryStats (stats svc) responseTime\<rparr>;
                  result = \<lparr>d_webhookId = w_id webhook, d_url = w_url webhook,
                            d_success = True, d_statusCode = Some status,
                            d_responseTime = responseTime, d_error = None,
                            d_retryCount = retryCount\<rparr>
              in if \<not> isTest
                 then (Inr result,
                       svc1\<lparr>stats := (stats svc1)
                              \<lparr>webhooksDelivered := webhooksDelivered (stats svc1) + 1\<rparr>\<rparr>)
                 else (Inr result, svc1))
         | Inl failure \<Rightarrow>
             (let responseTime = finishedAt env retryCount - startTime in
              if retryCount + 1 \<le> maxRetries svc
              then deliverWebhook_loop svc env webhook payload isTest startTime (retryCount + 1)
              else (Inr \<lparr>d_webhookId = w_id webhook, d_url = w_url webhook,
                         d_success = False, d_statusCode = snd failure,
                         d_responseTime = responseTime, d_error = Some (fst failure),
                         d_retryCount = retryCount + 1 - 1\<rparr>,
                    svc\<lparr>stats := (stats svc)
                          \<lparr>deliveryFailures := deliveryFailures (stats svc) + 1\<rparr>\<rparr>)))
      else (Inl (Error ''Unexpected webhook delivery state''), svc))"
  by pat_completeness auto
termination
  by (relation "measure (\<lambda>(svc, env, webhook, payload, isTest, startTime, retryCount).
                   maxRetries svc + 1 - retryCount)") auto

declare deliverWebhook_loop.simps [simp del]

definition deliverWebhook ::
  "WebhookService \<Rightarrow> HttpEnv \<Rightarrow> WebhookConfig \<Rightarrow> WebhookPayload \<Rightarrow> bool \<Rightarrow> int \<Rightarrow>
   (error + WebhookDeliveryResult) \<times> WebhookService" where
  "deliverWebhook svc env webhook payload isTest startTime =
     deliverWebhook_loop svc env webhook payload isTest startTime 0"

text \<open>
  \<open>generateSignature\<close>: \<open>hmac\<close> stands for the hex digest of \<open>crypto.createHmac('sha256',
  secret)\<close> over a text and \<open>json\<close> for \<open>JSON.stringify\<close> on an event; both are library
  functions and stay parameters. \<open>!secret\<close> holds for a missing and for an empty secret.
\<close>

definition truthy :: "string option \<Rightarrow> bool" where
  "truthy s = (case s of None \<Rightarrow> False | Some v \<Rightarrow> v \<noteq> [])"

definition generateSignature ::
  "(string \<Rightarrow> string \<Rightarrow> string) \<Rightarrow> (GeofenceEvent \<Rightarrow> string) \<Rightarrow> GeofenceEvent \<Rightarrow> string option \<Rightarrow> string" where
  "generateSignature hmac json event secret =
     (case secret of
        None \<Rightarrow> []
      | Some k \<Rightarrow> if k = [] then [] else hmac k (json event))"

definition testEvent :: "nat \<Rightarrow> GeofenceEvent" where
  "testEvent now =
     \<lparr>e_id = ''test-'' @ decimal now,
      e_userId = ''test-user'',
      e_zoneId = ''test-zone'',
      e_zoneName = Some ''Test Zone'',
      e_zoneType = Some SAFE,
      e_eventType = ENTER,
      e_location = \<lparr>lp_userId = ''test-user'',
                    lp_coordinates = \<lparr>latitude = 28.6129, longitude = 77.2295\<rparr>,
                    lp_timestamp = int now\<rparr>,
      e_timestamp = int now,
      e_processed = False,
      e_alertLevel = Some low\<rparr>"

definition testZone :: Zone where
  "testZone =
     \<lparr>z_id = ''test-zone'', z_name = ''Test Zone'', z_type = SAFE, z_status = ACTIVE,
      z_coordinates = [], z_metadata = None\<rparr>"

definition testWebhook ::
  "(string \<Rightarrow> string \<Rightarrow> string) \<Rightarrow> (GeofenceEvent \<Rightarrow> string) \<Rightarrow> HttpEnv \<Rightarrow> nat \<Rightarrow>
   WebhookService \<Rightarrow> string \<Rightarrow> (error + WebhookDeliveryResult) \<times> WebhookService" where
  "testWebhook hmac json env now svc webhookId =
     (case find (\<lambda>w. w_id w = webhookId) (webhooks svc) of
        None \<Rightarrow> (Inl (GeofencingError ''Failed to test webhook''), svc)
      | Some webhook \<Rightarrow>
          (let payload =
                 \<lparr>p_event = testEvent now, p_zone = testZone, p_userId = ''test-user'',
                  p_timestamp = int now,
                  p_signature =
                    Some (generateSignature hmac json (testEvent now) (w_secret webhook))\<rparr>
           in case deliverWebhook svc env webhook payload True (int now) of
                (Inr result, svc') \<Rightarrow> (Inr result, svc')
              | (Inl e, svc') \<Rightarrow> (Inl (GeofencingError ''Failed to test webhook''), svc')))"

text \<open>
  \<open>deliverEventToWebhooks\<close> builds one payload object and, in the \<open>map\<close> callback, sets
  its \<open>signature\<close> for a webhook with a secret and then calls \<open>deliverWebhook\<close>, which
  reaches \<open>axios.post(url, payload)\<close> before its first suspension. The function returns,
  in order, the webhook and the payload of every such call; the payload object is the
  same one throughout, so what one iteration wrote is still there in the next.
\<close>

fun deliverToEach ::
  "(string \<Rightarrow> string \<Rightarrow> string) \<Rightarrow> (GeofenceEvent \<Rightarrow> string) \<Rightarrow> GeofenceEvent \<Rightarrow> WebhookPayload \<Rightarrow>
   WebhookConfig list \<Rightarrow> (WebhookConfig \<times> WebhookPayload) list" where
  "deliverToEach hmac json event payload [] = []"
| "deliverToEach hmac json event payload (webhook # rest) =
     (let payload' =
            (if truthy (w_secret webhook)
             then payload\<lparr>p_signature :=
                    Some (generateSignature hmac json event (w_secret webhook))\<rparr>
             else payload)
      in (webhook, payload') # deliverToEach hmac json event payload' rest)"

definition deliverEventToWebhooks ::
  "(string \<Rightarrow> string \<Rightarrow> string) \<Rightarrow> (GeofenceEvent \<Rightarrow> string) \<Rightarrow> (string \<Rightarrow> Zone option) \<Rightarrow> int \<Rightarrow>
   GeofenceEvent \<Rightarrow> WebhookConfig list \<Rightarrow> (WebhookConfig \<times> WebhookPayload) list" where
  "deliverEventToWebhooks hmac json zoneLookup now event hooks =
     (case zoneLookup (e_zoneId event) of
        None \<Rightarrow> []
      | Some zone \<Rightarrow>
          deliverToEach hmac json event
            \<lparr>p_event = event, p_zone = zone, p_userId = e_userId event, p_timestamp = now,
             p_signature = None\<rparr> hooks)"

text \<open>
  A delivery whose attempt fails is tried again after \<open>await this.delay(...)\<close>. By then
  the \<open>map\<close> of \<open>deliverEventToWebhooks\<close> has visited every webhook, and the new attempt
  posts the same payload object, which holds what the last iteration left in it.
  \<open>payloadPosted calls i retryCount\<close> is the payload of the attempt \<open>retryCount\<close> of the
  \<open>i\<close>-th delivery, where \<open>calls\<close> is the result of \<open>deliverEventToWebhooks\<close>.
\<close>

definition payloadPosted ::
  "(WebhookConfig \<times> WebhookPayload) list \<Rightarrow> nat \<Rightarrow> nat \<Rightarrow> WebhookPayload" where
  "payloadPosted calls i retryCount =
     (if retryCount = 0 then snd (calls ! i) else snd (last calls))"

section \<open>LoadBalancer (the request governor)\<close>

record LoadBalancerConfig =
  maxRequestsPerSecond :: nat
  windowSizeMs :: nat
  retryAttempts :: nat
  retryDelayMs :: nat

record RequestQueue =
  rq_id :: string
  rq_priority :: int
  rq_timestamp :: int
  rq_retryCount :: nat

record LoadBalancer =
  requestQueue :: "RequestQueue list"
  requestWindow :: "int list"
  connectionHealthScores :: "string \<rightharpoonup> int"
  responseTimes :: "int list"
  queuedRequests :: int
  completedRequests :: nat
  failedRequests :: nat
  averageResponseTime :: real
  requestsPerSecond :: nat
  lbConfig :: LoadBalancerConfig

subsection \<open>The connection manager held by the governor\<close>

text \<open>
  The constructor takes a \<open>ConnectionManager\<close>, the class of \<open>ConnectionManager.ts\<close>, and
  \<open>GeofencingOrchestrator\<close> passes its own instance. The governor calls three methods on
  it: \<open>getAvailableConnections\<close>, \<open>getConnection\<close> and \<open>healthCheck\<close>. A method is looked
  up by its name when the call is made. \<open>ConnectionManager_methods\<close> lists the methods the
  class declares and \<open>EventEmitter_methods\<close> the ones it inherits; a call of any other
  name throws a \<open>TypeError\<close>. In \<open>callOnManager name answer\<close>, \<open>answer\<close> is what the method
  returns when the object has it.
\<close>

definition ConnectionManager_methods :: "string list" where
  "ConnectionManager_methods =
     [''initialize'', ''initializeReplicas'', ''setupConnectionEventHandlers'',
      ''waitForConnection'', ''handleConnectionError'', ''getReadConnection'',
      ''getWriteConnection'', ''executeRead'', ''executeWrite'', ''findHealthyReplica'',
      ''startHealthMonitoring'', ''performHealthChecks'', ''getOverallHealthStatus'',
      ''getPoolStatistics'', ''shutdown'', ''delay'', ''isReady'', ''getConfig'']"

definition EventEmitter_methods :: "string list" where
  "EventEmitter_methods =
     [''addListener'', ''on'', ''once'', ''prependListener'', ''prependOnceListener'',
      ''removeListener'', ''off'', ''removeAllListeners'', ''setMaxListeners'',
      ''getMaxListeners'', ''listeners'', ''rawListeners'', ''emit'', ''listenerCount'',
      ''eventNames'']"

definition callOnManager :: "string \<Rightarrow> 'a \<Rightarrow> error + 'a" where
  "callOnManager name answer =
     (if name \<in> set (ConnectionManager_methods @ EventEmitter_methods) then Inr answer
      else Inl (TypeError (''this.connectionManager.'' @ name @ '' is not a function'')))"

subsection \<open>Health scores\<close>

text \<open>\<open>this.connectionHealthScores.get(id) || 50\<close>: the default replaces a missing score and the score 0.\<close>

definition scoreOrDefault :: "LoadBalancer \<Rightarrow> string \<Rightarrow> int" where
  "scoreOrDefault lb connectionId =
     (case connectionHealthScores lb connectionId of
        None \<Rightarrow> 50
      | Some s \<Rightarrow> if s = 0 then 50 else s)"

definition updateConnectionHealth :: "LoadBalancer \<Rightarrow> string \<Rightarrow> bool \<Rightarrow> int \<Rightarrow> LoadBalancer" where
  "updateConnectionHealth lb connectionId success responseTime =
     (let currentScore = scoreOrDefault lb connectionId;
          adjustment =
            (if success then
               (if responseTime < 100 then 5
                else if responseTime < 500 then 2
                else 1)
             else - 10);
          newScore = max 0 (min 100 (currentScore + adjustment))
      in lb\<lparr>connectionHealthScores := (connectionHealthScores lb)(connectionId \<mapsto> newScore)\<rparr>)"

text \<open>
  \<open>performHealthCheck\<close>: the loop over the results of \<open>healthCheck()\<close>, then the method.
  An error thrown inside its \<open>try\<close> only emits \<open>healthCheckError\<close>.
\<close>

fun lowerUnhealthy :: "LoadBalancer \<Rightarrow> (string \<times> bool) list \<Rightarrow> LoadBalancer" where
  "lowerUnhealthy lb [] = lb"
| "lowerUnhealthy lb ((connectionId, isHealthy) # rest) =
     lowerUnhealthy
       (if \<not> isHealthy
        then lb\<lparr>connectionHealthScores :=
                 (connectionHealthScores lb)
                   (connectionId \<mapsto> max 0 (scoreOrDefault lb connectionId - 20))\<rparr>
        else lb)
       rest"

definition performHealthCheck :: "LoadBalancer \<Rightarrow> (string \<times> bool) list \<Rightarrow> LoadBalancer" where
  "performHealthCheck lb answer =
     (case callOnManager ''healthCheck'' answer of
        Inl e \<Rightarrow> lb
      | Inr healthResults \<Rightarrow> lowerUnhealthy lb healthResults)"

text \<open>
  \<open>getBestConnection\<close>: the connections are named by their ids. \<open>Array.prototype.sort\<close> is
  stable; with the comparator \<open>scoreB - scoreA\<close> it orders by descending score, which is
  the stable insertion sort on the negated score. The last branch is the test
  \<open>if (!connection)\<close> that \<open>processRequest\<close> makes on the result.
\<close>

definition getBestConnection :: "LoadBalancer \<Rightarrow> string list \<Rightarrow> error + string" where
  "getBestConnection lb answer =
     (case callOnManager ''getAvailableConnections'' answer of
        Inl e \<Rightarrow> Inl e
      | Inr availableConnections \<Rightarrow>
          if length availableConnections = 0 then Inl (Error ''No connections available'')
          else (case sort_key (\<lambda>c. - scoreOrDefault lb c) availableConnections of
                  best # others \<Rightarrow> Inr best
                | [] \<Rightarrow> Inl (Error ''No healthy connections available'')))"

subsection \<open>Rate limiting\<close>

definition canProcessRequest :: "LoadBalancer \<Rightarrow> int \<Rightarrow> bool \<times> LoadBalancer" where
  "canProcessRequest lb now =
     (let windowStart = now - int (windowSizeMs (lbConfig lb));
          lb' = lb\<lparr>requestWindow := filter (\<lambda>time. time > windowStart) (requestWindow lb)\<rparr>
      in (length (requestWindow lb') < maxRequestsPerSecond (lbConfig lb), lb'))"

definition recordRequest :: "LoadBalancer \<Rightarrow> int \<Rightarrow> LoadBalancer" where
  "recordRequest lb now = lb\<lparr>requestWindow := requestWindow lb @ [now]\<rparr>"

text \<open>
  \<open>recordResponseTime\<close> is called when a request has completed or failed
  (\<open>processRequest\<close>, \<open>handleRequestFailure\<close>); it is the only caller of \<open>recordRequest\<close>.
\<close>

definition recordResponseTime :: "LoadBalancer \<Rightarrow> int \<Rightarrow> int \<Rightarrow> LoadBalancer" where
  "recordResponseTime lb responseTime now =
     (let pushed = responseTimes lb @ [responseTime];
          kept = (if length pushed > 1000 then tl pushed else pushed);
          average =
            (if length kept > 0
             then real_of_int (sum_list kept) / real (length kept)
             else averageResponseTime lb);
          recentRequests = length (filter (\<lambda>time. now - time < 1000) (requestWindow lb))
      in recordRequest
           (lb\<lparr>responseTimes := kept, averageResponseTime := average,
               requestsPerSecond := recentRequests\<rparr>)
           now)"

subsection \<open>Processing a request\<close>

text \<open>
  What becomes of a request handed to \<open>processRequest\<close>: its promise is resolved, or it is
  rejected, or the request is put back at the head of the queue by a timer after a delay,
  or \<open>processRequest\<close> itself ends with an error, in which case nothing settles the
  promise of the request and nothing queues it again.
\<close>

datatype 'a requestOutcome =
    Resolved 'a
  | Rejected error
  | Retrying RequestQueue nat
  | Unsettled error

text \<open>
  The surroundings of one \<open>processRequest\<close>: the answers of the connection manager, what
  \<open>request.operation()\<close> does when it is called, and the clock reading when the operation
  has returned or thrown, or when \<open>getBestConnection\<close> has thrown.
\<close>

record 'a RequestRun =
  rr_available :: "string list"
  rr_current :: "string option"
  rr_result :: "error + 'a"
  rr_done :: int

definition handleRequestFailure ::
  "LoadBalancer \<Rightarrow> 'a RequestRun \<Rightarrow> RequestQueue \<Rightarrow> error \<Rightarrow> int \<Rightarrow>
   'a requestOutcome \<times> LoadBalancer" where
  "handleRequestFailure lb run request err startTime =
     (let responseTime = rr_done run - startTime;
          lb1 = recordResponseTime lb responseTime (rr_done run)
      in case callOnManager ''getConnection'' (rr_current run) of
           Inl e \<Rightarrow> (Unsettled e, lb1)
         | Inr connection \<Rightarrow>
             (let lb2 = (case connection of
                           Some connectionId \<Rightarrow>
                             updateConnectionHealth lb1 connectionId False responseTime
                         | None \<Rightarrow> lb1)
              in if rq_retryCount request < retryAttempts (lbConfig lb2)
                 then (Retrying (request\<lparr>rq_retryCount := rq_retryCount request + 1\<rparr>)
                         (retryDelayMs (lbConfig lb2) * 2 ^ (rq_retryCount request + 1)),
                       lb2)
                 else (Rejected err, lb2\<lparr>failedRequests := failedRequests lb2 + 1\<rparr>)))"

text \<open>
  \<open>processRequest\<close>, on the state in which the request is taken up. The first component
  of the result tells whether \<open>request.operation()\<close> was called.
\<close>

definition processRequest ::
  "LoadBalancer \<Rightarrow> 'a RequestRun \<Rightarrow> RequestQueue \<Rightarrow> int \<Rightarrow>
   bool \<times> 'a requestOutcome \<times> LoadBalancer" where
  "processRequest lb run request startTime =
     (case getBestConnection lb (rr_available run) of
        Inl e \<Rightarrow>
          (case handleRequestFailure lb run request e startTime of
             (outcome, lb1) \<Rightarrow> (False, outcome, lb1))
      | Inr connection \<Rightarrow>
          (case rr_result run of
             Inr result \<Rightarrow>
               (let responseTime = rr_done run - startTime;
                    lb1 = recordResponseTime lb responseTime (rr_done run);
                    lb2 = lb1\<lparr>completedRequests := completedRequests lb1 + 1\<rparr>
                in (True, Resolved result,
                    updateConnectionHealth lb2 connection True responseTime))
           | Inl e \<Rightarrow>
               (case handleRequestFailure lb run request e startTime of
                  (outcome, lb1) \<Rightarrow> (True, outcome, lb1))))"

subsection \<open>The governor loop\<close>

text \<open>
  \<open>processQueue\<close> is a \<open>while (true)\<close> loop that suspends only in its two \<open>sleep\<close> calls.
  \<open>processQueue_turn\<close> is the loop from one resumption to the next suspension, at clock
  reading \<open>now\<close>: it returns the requests it handed to \<open>processRequest\<close>, each with the
  time of the hand-over, the length of the sleep it ends in, and the state.
  \<open>canProcessRequest\<close> leaves the queue alone, so \<open>shift()\<close> returns the head seen by the
  emptiness test. \<open>processRequest\<close> is not awaited, and it suspends at its first \<open>await\<close>
  before it touches the state of the governor.
\<close>

function processQueue_turn ::
  "int \<Rightarrow> LoadBalancer \<Rightarrow> (RequestQueue \<times> int) list \<times> real \<times> LoadBalancer" where
  "processQueue_turn now lb =
     (case requestQueue lb of
        [] \<Rightarrow> ([], 10, lb)
      | request # rest \<Rightarrow>
          (case canProcessRequest lb now of
             (False, lb1) \<Rightarrow>
               ([], real (windowSizeMs (lbConfig lb1)) / real (maxRequestsPerSecond (lbConfig lb1)),
                lb1)
           | (True, lb1) \<Rightarrow>
               (case processQueue_turn now
                       (lb1\<lparr>requestQueue := rest, queuedRequests := queuedRequests lb1 - 1\<rparr>) of
                  (dispatched, pause, lb2) \<Rightarrow> ((request, now) # dispatched, pause, lb2))))"
  by pat_completeness auto
termination
  by (relation "measure (\<lambda>(now, lb). length (requestQueue lb))") auto

declare processQueue_turn.simps [simp del]




section \<open>ConnectionManager\<close>

datatype conn = Primary | Replica nat

record ConnectionPool =
  replicas :: "conn list"
  roundRobinIndex :: nat

text \<open>
  Whether a connection is up (\<open>isServiceConnected\<close>) is decided outside the manager and can
  change while a retry waits, so it is an input: \<open>up\<close> is the state of the
  connections at the moment a handle is asked for.
\<close>

definition getReadConnection ::
  "(conn \<Rightarrow> bool) \<Rightarrow> ConnectionPool \<Rightarrow> (error + conn) \<times> ConnectionPool" where
  "getReadConnection up pool =
     (let availableConnections =
            filter up (Primary # filter up (replicas pool))
      in if length availableConnections = 0
         then (Inl (Tile38ConnectionError
                      ''No healthy connections available for read operations''), pool)
         else (Inr (availableConnections !
                      (roundRobinIndex pool mod length availableConnections)),
               pool\<lparr>roundRobinIndex := roundRobinIndex pool + 1\<rparr>))"

definition getWriteConnection ::
  "(conn \<Rightarrow> bool) \<Rightarrow> ConnectionPool \<Rightarrow> (error + conn) \<times> ConnectionPool" where
  "getWriteConnection up pool =
     (if \<not> up Primary
      then (Inl (Tile38ConnectionError
                   ''Primary connection not available for write operations''), pool)
      else (Inr Primary, pool))"

definition MAX_CONNECTION_ATTEMPTS :: nat where
  "MAX_CONNECTION_ATTEMPTS = 3"

text \<open>
  What a call of \<open>executeRead\<close> or \<open>executeWrite\<close> does, in order: \<open>Attempt (Some c) ok\<close>
  is one pass through the \<open>try\<close> block that got the handle \<open>c\<close> and ran the operation on
  it, \<open>ok\<close> telling whether the operation returned; \<open>Attempt None False\<close> is a pass in
  which getting the handle threw; \<open>Delayed ms\<close> is a call of \<open>this.delay(ms)\<close>.
\<close>

datatype step = Attempt "conn option" bool | Delayed nat

definition backoff :: "nat \<Rightarrow> step list" where
  "backoff attempt =
     (if attempt < MAX_CONNECTION_ATTEMPTS - 1 then [Delayed (1000 * (attempt + 1))] else [])"

text \<open>
  The two methods have the same \<open>for\<close> loop and differ in the handle they ask for and in
  the message of the final error. \<open>retryLoop\<close> is that loop from the iteration \<open>attempt\<close>
  on. The operation is a callback: \<open>operation attempt c w\<close> is what it does when called in
  iteration \<open>attempt\<close> on the handle \<open>c\<close> with the server in state \<open>w\<close>.
\<close>

function retryLoop ::
  "(nat \<Rightarrow> ConnectionPool \<Rightarrow> (error + conn) \<times> ConnectionPool) \<Rightarrow> string \<Rightarrow>
   (nat \<Rightarrow> conn \<Rightarrow> 'w \<Rightarrow> (error + 'a) \<times> 'w) \<Rightarrow> nat \<Rightarrow> ConnectionPool \<Rightarrow> 'w \<Rightarrow>
   (error + 'a) \<times> ConnectionPool \<times> 'w \<times> step list" where
  "retryLoop acquire message operation attempt pool w =
     (if attempt < MAX_CONNECTION_ATTEMPTS then
        (case acquire attempt pool of
           (Inr connection, pool1) \<Rightarrow>
             (case operation attempt connection w of
                (Inr result, w1) \<Rightarrow> (Inr result, pool1, w1, [Attempt (Some connection) True])
              | (Inl e, w1) \<Rightarrow>
                  (case retryLoop acquire message operation (attempt + 1) pool1 w1 of
                     (r, pool2, w2, steps) \<Rightarrow>
                       (r, pool2, w2,
                        Attempt (Some connection) False # backoff attempt @ steps)))
         | (Inl e, pool1) \<Rightarrow>
             (case retryLoop acquire message operation (attempt + 1) pool1 w of
                (r, pool2, w2, steps) \<Rightarrow>
                  (r, pool2, w2, Attempt None False # backoff attempt @ steps)))
      else (Inl (Tile38ConnectionError message), pool, w, []))"
  by pat_completeness auto
termination
  by (relation "measure (\<lambda>(acquire, message, operation, attempt, pool, w).
                   MAX_CONNECTION_ATTEMPTS - attempt)") auto

declare retryLoop.simps [simp del]

definition executeRead ::
  "(nat \<Rightarrow> conn \<Rightarrow> bool) \<Rightarrow> (nat \<Rightarrow> conn \<Rightarrow> 'w \<Rightarrow> (error + 'a) \<times> 'w) \<Rightarrow> ConnectionPool \<Rightarrow> 'w \<Rightarrow>
   (error + 'a) \<times> ConnectionPool \<times> 'w \<times> step list" where
  "executeRead up operation pool w =
     retryLoop (\<lambda>attempt. getReadConnection (up attempt))
       ''All read operation attempts failed'' operation 0 pool w"

definition executeWrite ::
  "(nat \<Rightarrow> conn \<Rightarrow> bool) \<Rightarrow> (nat \<Rightarrow> conn \<Rightarrow> 'w \<Rightarrow> (error + 'a) \<times> 'w) \<Rightarrow> ConnectionPool \<Rightarrow> 'w \<Rightarrow>
   (error + 'a) \<times> ConnectionPool \<times> 'w \<times> step list" where
  "executeWrite up operation pool w =
     retryLoop (\<lambda>attempt. getWriteConnection (up attempt))
       ''All write operation attempts failed'' operation 0 pool w"

fun delaysOf :: "step list \<Rightarrow> nat list" where
  "delaysOf [] = []"
| "delaysOf (Delayed ms # steps) = ms # delaysOf steps"
| "delaysOf (Attempt c ok # steps) = delaysOf steps"

fun attemptsOf :: "step list \<Rightarrow> (conn option \<times> bool) list" where
  "attemptsOf [] = []"
| "attemptsOf (Delayed ms # steps) = attemptsOf steps"
| "attemptsOf (Attempt c ok # steps) = (c, ok) # attemptsOf steps"


section \<open>ZoneManagementService: lookup and deletion\<close>

text \<open>
  The \<open>zones\<close> collection of the spatial index is a map from zone ids to what \<open>GET ...
  WITHFIELDS\<close> returns for them. One call of \<open>executeRead\<close> or \<open>executeWrite\<close> runs in an
  environment that says, for each attempt, which connections are up and whether the
  command sent in that attempt fails; a failed command leaves the collection as it was.
\<close>

type_synonym zones_collection = "string \<rightharpoonup> Tile38Reply"

record ConnEnv =
  connUp :: "nat \<Rightarrow> conn \<Rightarrow> bool"
  commandFails :: "nat \<Rightarrow> bool"

record ZoneManagementService =
  zoneCache :: "string \<rightharpoonup> Zone"
  cacheTimestamps :: "string \<rightharpoonup> int"
  zmPool :: ConnectionPool

definition CACHE_TTL :: int where
  "CACHE_TTL = 300000"

definition cacheZone :: "ZoneManagementService \<Rightarrow> Zone \<Rightarrow> int \<Rightarrow> ZoneManagementService" where
  "cacheZone zms zone now =
     zms\<lparr>zoneCache := (zoneCache zms)(z_id zone \<mapsto> zone),
         cacheTimestamps := (cacheTimestamps zms)(z_id zone \<mapsto> now)\<rparr>"

definition removeCachedZone :: "ZoneManagementService \<Rightarrow> string \<Rightarrow> ZoneManagementService" where
  "removeCachedZone zms zoneId =
     zms\<lparr>zoneCache := (zoneCache zms)(zoneId := None),
         cacheTimestamps := (cacheTimestamps zms)(zoneId := None)\<rparr>"

text \<open>\<open>!timestamp\<close> holds for a missing timestamp and for the timestamp 0.\<close>

definition getCachedZone ::
  "ZoneManagementService \<Rightarrow> string \<Rightarrow> int \<Rightarrow> Zone option \<times> ZoneManagementService" where
  "getCachedZone zms zoneId now =
     (case cacheTimestamps zms zoneId of
        None \<Rightarrow> (None, removeCachedZone zms zoneId)
      | Some timestamp \<Rightarrow>
          if timestamp = 0 \<or> now - timestamp > CACHE_TTL
          then (None, removeCachedZone zms zoneId)
          else (zoneCache zms zoneId, zms))"

definition readZone ::
  "(string \<Rightarrow> Coordinate list option) \<Rightarrow> ConnEnv \<Rightarrow> string \<Rightarrow>
   nat \<Rightarrow> conn \<Rightarrow> zones_collection \<Rightarrow> (error + Zone option) \<times> zones_collection" where
  "readZone parseGeometry env zoneId attempt service collection =
     (if commandFails env attempt then (Inl (Error ''GET failed''), collection)
      else (case collection zoneId of
              None \<Rightarrow> (Inr None, collection)
            | Some result \<Rightarrow>
                if r_object result = [] then (Inr None, collection)
                else (Inr (parseZoneFromTile38 parseGeometry zoneId result), collection)))"

text \<open>\<open>getZone\<close>: any error of the lookup is caught and turned into \<open>null\<close>.\<close>

definition getZone ::
  "(string \<Rightarrow> Coordinate list option) \<Rightarrow> ConnEnv \<Rightarrow> int \<Rightarrow> ZoneManagementService \<Rightarrow>
   zones_collection \<Rightarrow> string \<Rightarrow> Zone option \<times> ZoneManagementService \<times> zones_collection" where
  "getZone parseGeometry env now zms collection zoneId =
     (case getCachedZone zms zoneId now of
        (Some cached, zms1) \<Rightarrow> (Some cached, zms1, collection)
      | (None, zms1) \<Rightarrow>
          (case executeRead (connUp env) (readZone parseGeometry env zoneId)
                  (zmPool zms1) collection of
             (Inr (Some zone), pool', collection', steps) \<Rightarrow>
               (Some zone, cacheZone (zms1\<lparr>zmPool := pool'\<rparr>) zone now, collection')
           | (Inr None, pool', collection', steps) \<Rightarrow>
               (None, zms1\<lparr>zmPool := pool'\<rparr>, collection')
           | (Inl e, pool', collection', steps) \<Rightarrow>
               (None, zms1\<lparr>zmPool := pool'\<rparr>, collection')))"

definition delZone ::
  "ConnEnv \<Rightarrow> string \<Rightarrow> nat \<Rightarrow> conn \<Rightarrow> zones_collection \<Rightarrow> (error + unit) \<times> zones_collection" where
  "delZone env zoneId attempt service collection =
     (if commandFails env attempt then (Inl (Error ''DEL failed''), collection)
      else (Inr (), collection(zoneId := None)))"

text \<open>
  \<open>deleteZone\<close>: the errors that can arise inside the \<open>try\<close> are a \<open>ZoneValidationError\<close>
  and a \<open>Tile38ConnectionError\<close>, both of them \<open>GeofencingError\<close>s, which the \<open>catch\<close>
  rethrows as they are.
\<close>

definition ZoneManagementService_deleteZone ::
  "(string \<Rightarrow> Coordinate list option) \<Rightarrow> ConnEnv \<Rightarrow> ConnEnv \<Rightarrow> int \<Rightarrow> ZoneManagementService \<Rightarrow>
   zones_collection \<Rightarrow> string \<Rightarrow> (error + bool) \<times> ZoneManagementService \<times> zones_collection" where
  "ZoneManagementService_deleteZone parseGeometry readEnv writeEnv now zms collection zoneId =
     (case getZone parseGeometry readEnv now zms collection zoneId of
        (None, zms1, collection1) \<Rightarrow>
          (Inl (ZoneValidationError (''Zone not found: '' @ zoneId)), zms1, collection1)
      | (Some zone, zms1, collection1) \<Rightarrow>
          (case executeWrite (connUp writeEnv) (delZone writeEnv zoneId)
                  (zmPool zms1) collection1 of
             (Inl e, pool', collection2, steps) \<Rightarrow>
               (Inl e, zms1\<lparr>zmPool := pool'\<rparr>, collection2)
           | (Inr done, pool', collection2, steps) \<Rightarrow>
               (Inr True, removeCachedZone (zms1\<lparr>zmPool := pool'\<rparr>) zoneId, collection2)))"

section \<open>GeospatialValidator\<close>

text \<open>
  Coordinates are IEEE doubles in the source and real numbers here; \<open>Math.sin\<close>,
  \<open>Math.cos\<close>, \<open>Math.sqrt\<close> and \<open>Math.atan2\<close> are the real functions.
\<close>

definition toRadians :: "real \<Rightarrow> real" where
  "toRadians degrees = degrees * (pi / 180)"

definition atan2 :: "real \<Rightarrow> real \<Rightarrow> real" where
  "atan2 y x =
     (if x > 0 then arctan (y / x)
      else if x < 0 \<and> y \<ge> 0 then arctan (y / x) + pi
      else if x < 0 \<and> y < 0 then arctan (y / x) - pi
      else if y > 0 then pi / 2
      else if y < 0 then - (pi / 2)
      else 0)"

definition validateCoordinate :: "Coordinate \<Rightarrow> error option" where
  "validateCoordinate coord =
     (if latitude coord < - 90 \<or> latitude coord > 90
      then Some (LocationValidationError ''Latitude must be between -90 and 90 degrees'')
      else if longitude coord < - 180 \<or> longitude coord > 180
      then Some (LocationValidationError ''Longitude must be between -180 and 180 degrees'')
      else None)"

definition calculateDistance :: "Coordinate \<Rightarrow> Coordinate \<Rightarrow> real" where
  "calculateDistance coord1 coord2 =
     (let R = 6371000;
          lat1 = toRadians (latitude coord1);
          lat2 = toRadians (latitude coord2);
          deltaLat = toRadians (latitude coord2 - latitude coord1);
          deltaLon = toRadians (longitude coord2 - longitude coord1);
          a = sin (deltaLat / 2) * sin (deltaLat / 2) +
              cos lat1 * cos lat2 * sin (deltaLon / 2) * sin (deltaLon / 2);
          c = 2 * atan2 (sqrt a) (sqrt (1 - a))
      in R * c)"

fun areaSum :: "Coordinate list \<Rightarrow> real" where
  "areaSum (coord1 # coord2 # rest) =
     (toRadians (longitude coord2) - toRadians (longitude coord1)) *
       (2 + sin (toRadians (latitude coord1)) + sin (toRadians (latitude coord2)))
     + areaSum (coord2 # rest)"
| "areaSum _ = 0"

definition calculatePolygonArea :: "Coordinate list \<Rightarrow> real" where
  "calculatePolygonArea coordinates =
     (if length coordinates < 3 then 0
      else \<bar>areaSum coordinates * 6371000 * 6371000 / 2\<bar>)"

definition orientation :: "Coordinate \<Rightarrow> Coordinate \<Rightarrow> Coordinate \<Rightarrow> nat" where
  "orientation p q r =
     (let val = (latitude q - latitude p) * (longitude r - longitude q) -
                (longitude q - longitude p) * (latitude r - latitude q)
      in if \<bar>val\<bar> < 1 / 10 ^ 10 then 0 else if val > 0 then 1 else 2)"

definition onSegment :: "Coordinate \<Rightarrow> Coordinate \<Rightarrow> Coordinate \<Rightarrow> bool" where
  "onSegment p q r =
     (longitude q \<le> max (longitude p) (longitude r) \<and>
      longitude q \<ge> min (longitude p) (longitude r) \<and>
      latitude q \<le> max (latitude p) (latitude r) \<and>
      latitude q \<ge> min (latitude p) (latitude r))"

definition linesIntersect :: "Coordinate \<times> Coordinate \<Rightarrow> Coordinate \<times> Coordinate \<Rightarrow> bool" where
  "linesIntersect line1 line2 =
     (let p1 = fst line1; q1 = snd line1; p2 = fst line2; q2 = snd line2;
          o1 = orientation p1 q1 p2;
          o2 = orientation p1 q1 q2;
          o3 = orientation p2 q2 p1;
          o4 = orientation p2 q2 q1
      in if o1 \<noteq> o2 \<and> o3 \<noteq> o4 then True
         else if o1 = 0 \<and> onSegment p1 p2 q1 then True
         else if o2 = 0 \<and> onSegment p1 q2 q1 then True
         else if o3 = 0 \<and> onSegment p2 p1 q2 then True
         else if o4 = 0 \<and> onSegment p2 q1 q2 then True
         else False)"

text \<open>
  \<open>isSelfIntersecting\<close>: the two \<open>for\<close> loops run \<open>i\<close> over \<open>0 .. n - 2\<close> and \<open>j\<close> over
  \<open>i + 2 .. n - 2\<close>; a pair is skipped when \<open>|i - j| \<le> 1\<close> or when it is the first and the
  last edge.
\<close>

definition isSelfIntersecting :: "Coordinate list \<Rightarrow> bool" where
  "isSelfIntersecting coordinates =
     (if length coordinates < 4 then False
      else list_ex
        (\<lambda>i. list_ex
           (\<lambda>j. \<not> (j - i \<le> 1 \<or> (i = 0 \<and> j = length coordinates - 2)) \<and>
                linesIntersect (coordinates ! i, coordinates ! (i + 1))
                               (coordinates ! j, coordinates ! (j + 1)))
           [i + 2 ..< length coordinates - 1])
        [0 ..< length coordinates - 1])"

fun validateEach :: "nat \<Rightarrow> Coordinate list \<Rightarrow> error option" where
  "validateEach index [] = None"
| "validateEach index (coord # rest) =
     (case validateCoordinate coord of
        Some (LocationValidationError msg) \<Rightarrow>
          Some (ZoneValidationError
                  (''Invalid coordinate at index '' @ decimal index @ '': '' @ msg))
      | Some e \<Rightarrow> Some e
      | None \<Rightarrow> validateEach (Suc index) rest)"

text \<open>
  \<open>validateZonePolygon\<close> changes \<open>zone.coordinates\<close> in place when it closes the ring; the
  model returns the ring as it is afterwards.
\<close>

definition validateZonePolygon :: "Coordinate list \<Rightarrow> error + Coordinate list" where
  "validateZonePolygon coordinates =
     (if length coordinates < 3
      then Inl (ZoneValidationError ''Polygon must have at least 3 coordinates'')
      else if length coordinates > 100
      then Inl (ZoneValidationError ''Polygon cannot have more than 100 coordinates'')
      else (case validateEach 0 coordinates of
              Some e \<Rightarrow> Inl e
            | None \<Rightarrow>
                (let firstPoint = coordinates ! 0;
                     lastPoint = coordinates ! (length coordinates - 1);
                     isClosedPolygon = calculateDistance firstPoint lastPoint < 1 / 1000;
                     ring = (if \<not> isClosedPolygon then coordinates @ [firstPoint]
                             else coordinates)
                 in if isSelfIntersecting ring
                    then Inl (ZoneValidationError ''Polygon cannot be self-intersecting'')
                    else if calculatePolygonArea ring < 100
                    then Inl (ZoneValidationError
                                ''Zone area is too small (minimum 100 square meters)'')
                    else if calculatePolygonArea ring > 1000000000
                    then Inl (ZoneValidationError
                                ''Zone area is too large (maximum 1000 square kilometers)'')
                    else Inr ring)))"

text \<open>
  \<open>validateFourCoordinatePolygon\<close>: the closing coordinate may differ from the first by
  at most 0.0001 in latitude and in longitude. The two differences are compared as real
  numbers; the source compares the rounded differences of doubles, which can fall on the
  other side of the bound when a difference is 0.0001 to within rounding.
\<close>

definition validateFourCoordinatePolygon :: "Coordinate list \<Rightarrow> error option" where
  "validateFourCoordinatePolygon coordinates =
     (if length coordinates \<noteq> 4 \<and> length coordinates \<noteq> 5
      then Some (ZoneValidationError
                   ''Zone must have exactly 4 coordinates (plus optional closing coordinate)'')
      else if length coordinates = 5 \<and>
              (\<bar>latitude (coordinates ! 0) - latitude (coordinates ! 4)\<bar> > 1 / 10000 \<or>
               \<bar>longitude (coordinates ! 0) - longitude (coordinates ! 4)\<bar> > 1 / 10000)
      then Some (ZoneValidationError ''Closing coordinate must match the first coordinate'')
      else None)"

record BoundingBox =
  minLat :: real
  maxLat :: real
  minLon :: real
  maxLon :: real

definition calculateBoundingBox :: "Coordinate list \<Rightarrow> error + BoundingBox" where
  "calculateBoundingBox coordinates =
     (case coordinates of
        [] \<Rightarrow> Inl (ZoneValidationError ''Cannot calculate bounding box for empty coordinates'')
      | c0 # rest \<Rightarrow>
          Inr (foldl
                 (\<lambda>box coord.
                    \<lparr>minLat = min (minLat box) (latitude coord),
                     maxLat = max (maxLat box) (latitude coord),
                     minLon = min (minLon box) (longitude coord),
                     maxLon = max (maxLon box) (longitude coord)\<rparr>)
                 \<lparr>minLat = latitude c0, maxLat = latitude c0,
                  minLon = longitude c0, maxLon = longitude c0\<rparr>
                 coordinates))"

text \<open>\<open>isPointInPolygon\<close>: \<open>j\<close> is the index before \<open>i\<close>, starting from the last one.\<close>

definition isPointInPolygon :: "Coordinate \<Rightarrow> Coordinate list \<Rightarrow> bool" where
  "isPointInPolygon point polygon =
     foldl
       (\<lambda>inside i.
          (let j = (if i = 0 then length polygon - 1 else i - 1);
               xi = longitude (polygon ! i); yi = latitude (polygon ! i);
               xj = longitude (polygon ! j); yj = latitude (polygon ! j)
           in if ((yi > latitude point) \<noteq> (yj > latitude point)) \<and>
                 longitude point < (xj - xi) * (latitude point - yi) / (yj - yi) + xi
              then \<not> inside else inside))
       False [0 ..< length polygon]"

definition polygonsOverlap :: "Coordinate list \<Rightarrow> Coordinate list \<Rightarrow> bool" where
  "polygonsOverlap polygon1 polygon2 =
     (if list_ex (\<lambda>point. isPointInPolygon point polygon2) polygon1 then True
      else if list_ex (\<lambda>point. isPointInPolygon point polygon1) polygon2 then True
      else list_ex
        (\<lambda>i. list_ex
           (\<lambda>j. linesIntersect (polygon1 ! i, polygon1 ! (i + 1))
                               (polygon2 ! j, polygon2 ! (j + 1)))
           [0 ..< length polygon2 - 1])
        [0 ..< length polygon1 - 1])"

text \<open>
  \<open>validateZoneName\<close>: the name must match \<open>/^[a-zA-Z0-9\s\-_]+$/\<close>. A character of a
  \<open>string\<close> here is a code unit below 256, among which \<open>\s\<close> matches the space, the tab,
  the line feed, the vertical tab, the form feed, the carriage return and the no-break
  space (160). The white space characters that \<open>\s\<close> also matches at higher code units
  have no counterpart in this type.
\<close>

definition nameChar :: "char \<Rightarrow> bool" where
  "nameChar c =
     (let n = (of_char c :: nat)
      in (97 \<le> n \<and> n \<le> 122) \<or> (65 \<le> n \<and> n \<le> 90) \<or> (48 \<le> n \<and> n \<le> 57) \<or>
         n = 32 \<or> (9 \<le> n \<and> n \<le> 13) \<or> n = 160 \<or> n = 45 \<or> n = 95)"

definition validateZoneName :: "string \<Rightarrow> error option" where
  "validateZoneName name =
     (if name = [] then Some (ZoneValidationError ''Zone name is required'')
      else if length name < 3
      then Some (ZoneValidationError ''Zone name must be at least 3 characters'')
      else if length name > 100
      then Some (ZoneValidationError ''Zone name cannot exceed 100 characters'')
      else if \<not> list_all nameChar name
      then Some (ZoneValidationError
        ''Zone name can only contain letters, numbers, spaces, hyphens, and underscores'')
      else None)"

section \<open>ZoneManagementService: creation\<close>

record ZoneCreationRequest =
  q_name :: string
  q_type :: ZoneType
  q_coordinates :: "Coordinate list"
  q_riskLevel :: "real option"
  q_createdBy :: string

text \<open>
  \<open>validateZoneCreationRequest\<close>: the tests that the zone type is a member of the
  enumeration and that the coordinates are an array hold for every value of the record.
\<close>

definition validateZoneCreationRequest :: "ZoneCreationRequest \<Rightarrow> error option" where
  "validateZoneCreationRequest request =
     (if q_name request = [] then Some (ZoneValidationError ''Zone name is required'')
      else (case validateZoneName (q_name request) of
              Some e \<Rightarrow> Some e
            | None \<Rightarrow>
                if q_createdBy request = []
                then Some (ZoneValidationError ''Created by field is required'')
                else (case q_riskLevel request of
                        Some r \<Rightarrow>
                          if r < 1 \<or> r > 10
                          then Some (ZoneValidationError ''Risk level must be between 1 and 10'')
                          else None
                      | None \<Rightarrow> None)))"

definition getDefaultRiskLevel :: "ZoneType \<Rightarrow> real" where
  "getDefaultRiskLevel t =
     (case t of SAFE \<Rightarrow> 2 | TOURIST_FRIENDLY \<Rightarrow> 3 | CAUTION \<Rightarrow> 5 | RESTRICTED \<Rightarrow> 7
      | HIGH_RISK \<Rightarrow> 9 | EMERGENCY \<Rightarrow> 10)"

text \<open>
  \<open>searchZones\<close> with a bounding box and the status \<open>active\<close>, as \<open>checkZoneOverlaps\<close> calls
  it: what the index answers to \<open>INTERSECTS ... BOUNDS\<close> is an input (\<open>None\<close> when the reply
  is not an array of at least two elements, else the flat array \<open>reply[1]\<close>); any error
  is rethrown as a \<open>ZoneValidationError\<close>.
\<close>

definition searchOverlapCandidates ::
  "(string \<Rightarrow> Coordinate list option) \<Rightarrow> ConnEnv \<Rightarrow> (BoundingBox \<Rightarrow> string list option) \<Rightarrow>
   BoundingBox \<Rightarrow> ConnectionPool \<Rightarrow> zones_collection \<Rightarrow> (error + Zone list) \<times> ConnectionPool" where
  "searchOverlapCandidates parseGeometry env intersects box pool collection =
     (case executeRead (connUp env)
             (\<lambda>attempt service w.
                if commandFails env attempt then (Inl (Error ''INTERSECTS failed''), w)
                else (Inr (intersects box), w))
             pool collection of
        (Inl e, pool', w', steps) \<Rightarrow> (Inl (ZoneValidationError ''Failed to search zones''), pool')
      | (Inr result, pool', w', steps) \<Rightarrow>
          (Inr (filter (\<lambda>zone. z_status zone = ACTIVE)
                  (case result of
                     None \<Rightarrow> []
                   | Some objects \<Rightarrow> parseZonesFromTile38Results parseGeometry objects)),
           pool'))"

fun checkEachOverlap :: "Coordinate list \<Rightarrow> Zone list \<Rightarrow> error option" where
  "checkEachOverlap ring [] = None"
| "checkEachOverlap ring (existingZone # rest) =
     (if polygonsOverlap ring (z_coordinates existingZone)
      then Some (ZoneValidationError
                   (''Zone overlaps with existing zone: '' @ z_name existingZone @ '' ('' @
                    z_id existingZone @ '')''))
      else checkEachOverlap ring rest)"

text \<open>
  \<open>createZone\<close>. \<open>newId\<close> is the value of \<open>uuidv4()\<close>, and \<open>asStored zone\<close> is what the index
  will answer to a later \<open>GET\<close> of the zone written by \<open>storeZoneInTile38\<close>. The bounding
  box is computed from the ring of the request, before the ring is validated.
\<close>

definition ZoneManagementService_createZone ::
  "(string \<Rightarrow> Coordinate list option) \<Rightarrow> (Zone \<Rightarrow> Tile38Reply) \<Rightarrow> ConnEnv \<Rightarrow> ConnEnv \<Rightarrow>
   (BoundingBox \<Rightarrow> string list option) \<Rightarrow> int \<Rightarrow> string \<Rightarrow> ZoneManagementService \<Rightarrow>
   zones_collection \<Rightarrow> ZoneCreationRequest \<Rightarrow>
   (error + Zone) \<times> ZoneManagementService \<times> zones_collection" where
  "ZoneManagementService_createZone parseGeometry asStored readEnv writeEnv intersects now newId
     zms collection request =
     (case validateZoneCreationRequest request of
        Some e \<Rightarrow> (Inl e, zms, collection)
      | None \<Rightarrow>
     (case calculateBoundingBox (q_coordinates request) of
        Inl e \<Rightarrow> (Inl e, zms, collection)
      | Inr box \<Rightarrow>
     (case validateZonePolygon (q_coordinates request) of
        Inl e \<Rightarrow> (Inl e, zms, collection)
      | Inr ring \<Rightarrow>
     (case validateFourCoordinatePolygon ring of
        Some e \<Rightarrow> (Inl e, zms, collection)
      | None \<Rightarrow>
     (let zone =
            \<lparr>z_id = newId, z_name = q_name request, z_type = q_type request,
             z_status = ACTIVE, z_coordinates = ring,
             z_metadata = Some
               \<lparr>riskLevel =
                  (case q_riskLevel request of
                     None \<Rightarrow> getDefaultRiskLevel (q_type request)
                   | Some r \<Rightarrow> if r = 0 then getDefaultRiskLevel (q_type request) else r),
                createdBy = q_createdBy request\<rparr>\<rparr>
      in case searchOverlapCandidates parseGeometry readEnv intersects box (zmPool zms)
                collection of
           (Inl e, pool1) \<Rightarrow> (Inl e, zms\<lparr>zmPool := pool1\<rparr>, collection)
         | (Inr overlappingZones, pool1) \<Rightarrow>
             (case checkEachOverlap ring overlappingZones of
                Some e \<Rightarrow> (Inl e, zms\<lparr>zmPool := pool1\<rparr>, collection)
              | None \<Rightarrow>
                  (case executeWrite (connUp writeEnv)
                          (\<lambda>attempt service w.
                             if commandFails writeEnv attempt
                             then (Inl (Error ''SET failed''), w)
                             else (Inr (), w(newId \<mapsto> asStored zone)))
                          pool1 collection of
                     (Inl e, pool2, collection', steps) \<Rightarrow>
                       (Inl e, zms\<lparr>zmPool := pool2\<rparr>, collection')
                   | (Inr stored, pool2, collection', steps) \<Rightarrow>
                       (Inr zone, cacheZone (zms\<lparr>zmPool := pool2\<rparr>) zone now,
                        collection'))))))))"

section \<open>Example inputs\<close>

definition equator_zone :: Zone where
  "equator_zone =
     \<lparr>z_id = ''zone-1'', z_name = ''Equator park'', z_type = SAFE, z_status = ACTIVE,
      z_coordinates =
        [\<lparr>latitude = 0, longitude = 77.209\<rparr>,
         \<lparr>latitude = 0.001, longitude = 77.209\<rparr>,
         \<lparr>latitude = 0.001, longitude = 77.21\<rparr>],
      z_metadata = None\<rparr>"


definition delhi_coords :: "Coordinate list" where
  "delhi_coords =
     [\<lparr>latitude = 28.6139, longitude = 77.2090\<rparr>,
      \<lparr>latitude = 28.6139, longitude = 77.2100\<rparr>,
      \<lparr>latitude = 28.6149, longitude = 77.2100\<rparr>,
      \<lparr>latitude = 28.6149, longitude = 77.2090\<rparr>]"

definition scanned_zone :: Zone where
  "scanned_zone =
     \<lparr>z_id = ''z1'', z_name = [], z_type = SAFE, z_status = ACTIVE,
      z_coordinates = delhi_coords,
      z_metadata = Some \<lparr>riskLevel = 5, createdBy = []\<rparr>\<rparr>"

definition idle_service :: WebhookService where
  "idle_service =
     \<lparr>webhooks = [], deliveryQueue = [],
      stats = \<lparr>eventsDetected = 0, webhooksDelivered = 0, deliveryFailures = 0,
               averageDeliveryTime = 0\<rparr>,
      maxRetries = 3, retryDelay = 5000, batchSize = 100\<rparr>"

definition inside_event :: GeofenceEvent where
  "inside_event = newEvent (\<lambda>s. None) 1700000000000 scanned_zone ''U1'' ''point''"

definition hook_all_zones :: WebhookConfig where
  "hook_all_zones =
     \<lparr>w_id = ''hook-a'', w_name = ''all zones'', w_url = ''https://example.org/a'',
      w_secret = Some ''s3cr3t'', w_enabled = True, w_zoneIds = None, w_zoneTypes = None,
      w_eventTypes = [INSIDE]\<rparr>"

definition hook_empty_zoneIds :: WebhookConfig where
  "hook_empty_zoneIds =
     \<lparr>w_id = ''hook-b'', w_name = ''empty filter'', w_url = ''https://example.org/b'',
      w_secret = None, w_enabled = True, w_zoneIds = Some [], w_zoneTypes = None,
      w_eventTypes = [INSIDE]\<rparr>"

definition hook_no_secret :: WebhookConfig where
  "hook_no_secret =
     \<lparr>w_id = ''hook-c'', w_name = ''unsigned'', w_url = ''https://example.org/c'',
      w_secret = None, w_enabled = True, w_zoneIds = None, w_zoneTypes = None,
      w_eventTypes = [INSIDE]\<rparr>"

definition hook_other_secret :: WebhookConfig where
  "hook_other_secret =
     \<lparr>w_id = ''hook-d'', w_name = ''second signer'', w_url = ''https://example.org/d'',
      w_secret = Some ''0ther'', w_enabled = True, w_zoneIds = None, w_zoneTypes = None,
      w_eventTypes = [INSIDE]\<rparr>"

text \<open>
  What the index holds for a zone that \<open>createZone\<close> stored with type \<open>HIGH_RISK\<close> and no
  risk level of its own: \<open>storeZoneInTile38\<close> writes the default risk level of the type as
  the field \<open>riskLevel\<close>.
\<close>

definition cliff_entry :: Tile38Reply where
  "cliff_entry =
     \<lparr>r_object = ''polygon'',
      r_fields = Some
        \<lparr>f_name = Some ''Cliff edge'', f_type = Some HIGH_RISK, f_status = Some ACTIVE,
         f_riskLevel = Some 9, f_createdBy = Some ''admin''\<rparr>\<rparr>"

definition endpoint_down :: HttpEnv where
  "endpoint_down =
     \<lparr>post = (\<lambda>url payload k. Inl (''connect ECONNREFUSED'', None)),
      finishedAt = (\<lambda>k. 1700000000040)\<rparr>"

definition endpoint_up :: HttpEnv where
  "endpoint_up =
     \<lparr>post = (\<lambda>url payload k. Inr 200),
      finishedAt = (\<lambda>k. 1700000000120)\<rparr>"

definition governor :: LoadBalancer where
  "governor =
     \<lparr>requestQueue = [], requestWindow = [], connectionHealthScores = Map.empty,
      responseTimes = [], queuedRequests = 0, completedRequests = 0, failedRequests = 0,
      averageResponseTime = 0, requestsPerSecond = 0,
      lbConfig = \<lparr>maxRequestsPerSecond = 2, windowSizeMs = 1000, retryAttempts = 3,
                  retryDelayMs = 100\<rparr>\<rparr>"

definition queued :: "string \<Rightarrow> RequestQueue" where
  "queued name = \<lparr>rq_id = name, rq_priority = 0, rq_timestamp = 4990, rq_retryCount = 0\<rparr>"

definition pool_answers :: "RequestQueue \<Rightarrow> string RequestRun" where
  "pool_answers request =
     \<lparr>rr_available = [''replica-1'', ''primary''], rr_current = Some ''primary'',
      rr_result = Inr ''OK'', rr_done = 5003\<rparr>"






definition all_up :: ConnEnv where
  "all_up = \<lparr>connUp = (\<lambda>attempt c. True), commandFails = (\<lambda>attempt. False)\<rparr>"

definition one_zone_index :: zones_collection where
  "one_zone_index = [''z1'' \<mapsto> \<lparr>r_object = ''polygon'', r_fields = None\<rparr>]"

definition fresh_manager :: ZoneManagementService where
  "fresh_manager =
     \<lparr>zoneCache = Map.empty, cacheTimestamps = Map.empty,
      zmPool = \<lparr>replicas = [], roundRobinIndex = 0\<rparr>\<rparr>"

definition bottom :: "nat \<Rightarrow> Coordinate" where
  "bottom k = \<lparr>latitude = 0, longitude = real k / 100000\<rparr>"

definition apex :: Coordinate where
  "apex = \<lparr>latitude = 90, longitude = 0\<rparr>"

definition fan_ring :: "Coordinate list" where
  "fan_ring = map bottom [0 ..< 99] @ [apex]"

definition thin_triangle :: "Coordinate list" where
  "thin_triangle = [bottom 0, bottom 100, apex]"

definition zone_request :: "Coordinate list \<Rightarrow> ZoneCreationRequest" where
  "zone_request ring =
     \<lparr>q_name = ''Harbour'', q_type = SAFE, q_coordinates = ring, q_riskLevel = None,
      q_createdBy = ''admin''\<rparr>"

definition stored_form :: "Zone \<Rightarrow> Tile38Reply" where
  "stored_form zone = \<lparr>r_object = ''polygon'', r_fields = None\<rparr>"

section \<open>Theorems\<close>

subsection \<open>Tile38Service.createZone and zero coordinates\<close>

lemma validateZone_vertices_zero:
  "\<exists>c \<in> set cs. latitude c = 0 \<or> longitude c = 0 \<Longrightarrow>
   \<exists>msg. validateZone_vertices i cs = Some (ZoneValidationError msg)"
  by (induction cs arbitrary: i) auto

lemma validateZone_zero:
  assumes "\<exists>c \<in> set (z_coordinates zone). latitude c = 0 \<or> longitude c = 0"
  shows "\<exists>msg. validateZone zone = Some (ZoneValidationError msg)"
  using validateZone_vertices_zero[OF assms, of 0] by (auto simp: validateZone_def)

text \<open>
  C10. \<open>Tile38Service.createZone\<close> raises \<open>ZoneValidationError\<close> for every zone that has a
  vertex with latitude 0 or longitude 0, whatever the connection state and whatever the
  server would answer; nothing is sent and the service counters are untouched. Such a
  vertex is inside the valid ranges (0 is between -90 and 90 and between -180 and 180).
\<close>

theorem C10_createZone_rejects_zero_coordinate:
  assumes "c \<in> set (z_coordinates zone)" and "latitude c = 0 \<or> longitude c = 0"
  shows "\<exists>msg. Tile38Service_createZone svc outcome zone = (Inl (ZoneValidationError msg), svc)"
proof -
  from assms have "\<exists>c \<in> set (z_coordinates zone). latitude c = 0 \<or> longitude c = 0"
    by blast
  from validateZone_zero[OF this] show ?thesis
    by (auto simp: Tile38Service_createZone_def)
qed

theorem C10_createZone_rejects_zero_coordinate_witness:
  "\<lparr>latitude = 0, longitude = 77.209\<rparr> \<in> set (z_coordinates equator_zone) \<and>
   - 90 \<le> latitude \<lparr>latitude = 0, longitude = 77.209\<rparr> \<and>
   latitude \<lparr>latitude = 0, longitude = 77.209\<rparr> \<le> 90 \<and>
   (\<exists>msg. Tile38Service_createZone
            \<lparr>isConnected = True, requestCount = 0, errorCount = 0\<rparr> (Inr ()) equator_zone =
          (Inl (ZoneValidationError msg),
           \<lparr>isConnected = True, requestCount = 0, errorCount = 0\<rparr>))"
  using C10_createZone_rejects_zero_coordinate
    [of "\<lparr>latitude = 0, longitude = 77.209\<rparr>" equator_zone
        "\<lparr>isConnected = True, requestCount = 0, errorCount = 0\<rparr>" "Inr ()"]
  by (simp add: equator_zone_def)

subsection \<open>The periodic sweep\<close>

lemma calculateAlertLevel_table:
  "z_metadata zone = Some m \<Longrightarrow> riskLevel m \<noteq> 0 \<Longrightarrow>
   calculateAlertLevel zone = alertTable (riskLevel m)"
  by (simp add: calculateAlertLevel_def alertTable_def)

lemma parseZone_default_risk:
  "parseZoneFromTile38 pg zoneId \<lparr>r_object = zoneData, r_fields = None\<rparr> = Some zone \<Longrightarrow>
   z_metadata zone = Some \<lparr>riskLevel = 5, createdBy = []\<rparr>"
  by (auto simp: parseZoneFromTile38_def parseFields_def noFields_def str_or_def Let_def
           split: option.splits if_splits)

lemma parseZones_default_risk:
  "zone \<in> set (parseZonesFromTile38Results pg objects) \<Longrightarrow>
   z_metadata zone = Some \<lparr>riskLevel = 5, createdBy = []\<rparr>"
proof (induction pg objects rule: parseZonesFromTile38Results.induct)
  case (1 pg zoneId zoneData rest)
  then show ?case
    by (auto split: if_splits option.splits dest: parseZone_default_risk)
qed simp_all

lemma sweep_zone_default_risk:
  "zone \<in> set (getActiveZones pg objects limit) \<Longrightarrow>
   calculateAlertLevel zone = medium"
proof -
  assume "zone \<in> set (getActiveZones pg objects limit)"
  then have "zone \<in> set (parseZonesFromTile38Results pg objects)"
    by (auto simp: getActiveZones_def Let_def split: if_splits dest!: in_set_takeD)
  from parseZones_default_risk[OF this] show ?thesis
    by (simp add: calculateAlertLevel_def)
qed

lemma processZoneIntersections_events:
  "e \<in> set (fst (processZoneIntersections pp clock zone i users svc)) \<Longrightarrow>
   \<exists>j userId locationData. e = newEvent pp (clock j) zone userId locationData"
proof (induction pp clock zone i users svc rule: processZoneIntersections.induct)
  case (1 pp clock zone i userId locationData rest svc)
  show ?case
  proof (cases "userId \<noteq> [] \<and> locationData \<noteq> []")
    case True
    with 1(3) have "e = newEvent pp (clock i) zone userId locationData \<or>
       e \<in> set (fst (processZoneIntersections pp clock zone (i + 2) rest
                  (processGeofenceEvent svc (newEvent pp (clock i) zone userId locationData))))"
      by (simp add: Let_def split_beta)
    with 1(1)[OF True refl] show ?thesis by blast
  next
    case False
    with 1(3) have "e \<in> set (fst (processZoneIntersections pp clock zone (i + 2) rest svc))"
      by simp
    with 1(2)[OF False] show ?thesis .
  qed
qed simp_all

lemma checkZones_events:
  "(zone, e) \<in> set (fst (checkZones pp clock usersIn k zones svc)) \<Longrightarrow>
   zone \<in> set zones \<and>
   (\<exists>k' j userId locationData. e = newEvent pp (clock k' j) zone userId locationData)"
proof (induction pp clock usersIn k zones svc rule: checkZones.induct)
  case (1 pp clock usersIn k svc)
  then show ?case by simp
next
  case (2 pp clock usersIn k z zones svc)
  show ?case
  proof (cases "usersIn z")
    case (Inl err)
    with 2(3) show ?thesis by simp
  next
    case (Inr b)
    show ?thesis
    proof (cases b)
      case None
      with Inr 2(3) have "(zone, e) \<in> set (fst (checkZones pp clock usersIn (Suc k) zones svc))"
        by simp
      from 2(1)[OF Inr None this] show ?thesis by auto
    next
      case (Some users)
      obtain events svc1 where p: "processZoneIntersections pp (clock k) z 0 users svc = (events, svc1)"
        by (cases "processZoneIntersections pp (clock k) z 0 users svc")
      with Inr Some 2(3) have "(zone = z \<and> e \<in> set events) \<or>
          (zone, e) \<in> set (fst (checkZones pp clock usersIn (Suc k) zones svc1))"
        by (auto simp: split_beta)
      then show ?thesis
      proof
        assume a: "zone = z \<and> e \<in> set events"
        with p have "e \<in> set (fst (processZoneIntersections pp (clock k) zone 0 users svc))"
          by simp
        from processZoneIntersections_events[OF this] a show ?thesis by auto
      next
        assume "(zone, e) \<in> set (fst (checkZones pp clock usersIn (Suc k) zones svc1))"
        from 2(2)[OF Inr Some refl p[symmetric] this] show ?thesis by auto
      qed
    qed
  qed
qed

text \<open>
  Every event of every sweep has the type \<open>inside\<close>, an id made of the zone id, the user
  id and the clock reading, and the alert level \<open>medium\<close>, whatever the index holds.
\<close>

lemma sweep_events_medium:
  assumes "(zone, e) \<in> set (fst (checkGeofenceEvents pg pp clock objects usersIn svc))"
  shows "\<exists>k i userId locationData.
           e_id e = z_id zone @ ''-'' @ userId @ ''-'' @ decimal (clock k i) \<and>
           e_eventType e = INSIDE \<and>
           e_alertLevel e = Some medium"
proof -
  from assms have z: "zone \<in> set (getActiveZones pg objects (batchSize svc))"
    and ex: "\<exists>k j userId locationData. e = newEvent pp (clock k j) zone userId locationData"
    using checkZones_events unfolding checkGeofenceEvents_def by blast+
  from ex obtain k j userId locationData
    where e: "e = newEvent pp (clock k j) zone userId locationData" by blast
  from sweep_zone_default_risk[OF z] e show ?thesis
    by (intro exI[of _ k] exI[of _ j] exI[of _ userId] exI[of _ locationData])
       (simp add: newEvent_def)
qed

text \<open>
  C7, at a failing input. The index holds a zone of type \<open>HIGH_RISK\<close> with the stored risk
  level 9, for which the table gives \<open>critical\<close>, and a lookup of the zone by its id reads
  that risk level back. The sweep lists the zones with \<open>SCAN\<close> and parses each one
  without its fields, so the zone it works on has the risk level 5, and the event it
  builds for a user in the zone has the alert level \<open>medium\<close>. The event has the type
  \<open>inside\<close>. Its id is made of the zone id, the user id and the clock reading: a second
  sweep that builds the event at the same clock reading queues an event with the same id.
\<close>

theorem C7_sweep_ignores_stored_risk:
  "getDefaultRiskLevel HIGH_RISK = 9 \<and>
   alertTable 9 = critical \<and>
   map_option (\<lambda>zone. (z_metadata zone, calculateAlertLevel zone))
     (parseZoneFromTile38 (\<lambda>s. Some delhi_coords) ''z9'' cliff_entry) =
     Some (Some \<lparr>riskLevel = 9, createdBy = ''admin''\<rparr>, critical) \<and>
   map (\<lambda>(zone, e). (z_metadata zone, e_id e, e_eventType e, e_alertLevel e))
     (fst (checkGeofenceEvents (\<lambda>s. Some delhi_coords) (\<lambda>s. None) (\<lambda>k i. 1700000000000)
             [''z9'', r_object cliff_entry] (\<lambda>zone. Inr (Some [''U1'', ''point'']))
             (idle_service\<lparr>webhooks := [hook_all_zones]\<rparr>))) =
     [(Some \<lparr>riskLevel = 5, createdBy = []\<rparr>, ''z9-U1-1700000000000'', INSIDE, Some medium)] \<and>
   map (\<lambda>(event, hooks). e_id event)
     (deliveryQueue
        (snd (checkGeofenceEvents (\<lambda>s. Some delhi_coords) (\<lambda>s. None)
                (\<lambda>k i. 1700000000000) [''z9'', r_object cliff_entry]
                (\<lambda>zone. Inr (Some [''U1'', ''point'']))
                (snd (checkGeofenceEvents (\<lambda>s. Some delhi_coords) (\<lambda>s. None)
                        (\<lambda>k i. 1700000000000) [''z9'', r_object cliff_entry]
                        (\<lambda>zone. Inr (Some [''U1'', ''point'']))
                        (idle_service\<lparr>webhooks := [hook_all_zones]\<rparr>)))))) =
     [''z9-U1-1700000000000'', ''z9-U1-1700000000000'']"
  by (simp add: getDefaultRiskLevel_def alertTable_def calculateAlertLevel_def
                parseZoneFromTile38_def parseFields_def noFields_def str_or_def cliff_entry_def
                delhi_coords_def checkGeofenceEvents_def getActiveZones_def idle_service_def
                hook_all_zones_def newEvent_def processGeofenceEvent_def
                getApplicableWebhooks_def applicable_def decimal.simps digit_def Let_def)

subsection \<open>Webhook matching\<close>

lemma applicable_iff:
  "applicable e w \<longleftrightarrow>
     w_enabled w \<and>
     e_eventType e \<in> set (w_eventTypes w) \<and>
     (case w_zoneIds w of None \<Rightarrow> True | Some zoneIds \<Rightarrow> e_zoneId e \<in> set zoneIds) \<and>
     (case w_zoneTypes w of
        None \<Rightarrow> True
      | Some zoneTypes \<Rightarrow> (case e_zoneType e of None \<Rightarrow> False | Some t \<Rightarrow> t \<in> set zoneTypes))"
  by (simp add: applicable_def split: option.splits)

text \<open>
  C2, as the code has it. An event handed to \<open>processGeofenceEvent\<close> is queued for
  delivery to a registered webhook exactly when the webhook is enabled, the event's type
  is among its event types, its \<open>zoneIds\<close> filter is absent or contains the event's zone
  id, and its \<open>zoneTypes\<close> filter is absent or contains the event's zone type. A webhook
  without a \<open>zoneIds\<close> filter matches whatever the zone id is; a webhook whose \<open>zoneIds\<close>
  filter is present and empty matches no event.
\<close>

theorem C2_queued_iff_filters_pass:
  "(w \<in> set (getApplicableWebhooks svc e) \<longleftrightarrow>
      w \<in> set (webhooks svc) \<and>
      w_enabled w \<and>
      e_eventType e \<in> set (w_eventTypes w) \<and>
      (case w_zoneIds w of None \<Rightarrow> True | Some zoneIds \<Rightarrow> e_zoneId e \<in> set zoneIds) \<and>
      (case w_zoneTypes w of
         None \<Rightarrow> True
       | Some zoneTypes \<Rightarrow>
           (case e_zoneType e of None \<Rightarrow> False | Some t \<Rightarrow> t \<in> set zoneTypes))) \<and>
   deliveryQueue (processGeofenceEvent svc e) =
     deliveryQueue svc @
       (if getApplicableWebhooks svc e = [] then [] else [(e, getApplicableWebhooks svc e)]) \<and>
   (w_zoneIds w = None \<longrightarrow>
      (w \<in> set (getApplicableWebhooks svc e) \<longleftrightarrow>
       w \<in> set (getApplicableWebhooks svc (e\<lparr>e_zoneId := otherZone\<rparr>)))) \<and>
   (w_zoneIds w = Some [] \<longrightarrow> w \<notin> set (getApplicableWebhooks svc e))"
  by (simp add: getApplicableWebhooks_def processGeofenceEvent_def applicable_iff Let_def
           split: option.splits)

theorem C2_queued_iff_filters_pass_witness:
  "hook_all_zones \<in> set (getApplicableWebhooks
      (idle_service\<lparr>webhooks := [hook_all_zones, hook_empty_zoneIds]\<rparr>) inside_event) \<and>
   deliveryQueue (processGeofenceEvent
      (idle_service\<lparr>webhooks := [hook_all_zones, hook_empty_zoneIds]\<rparr>) inside_event) =
     [(inside_event, [hook_all_zones])] \<and>
   w_zoneIds hook_empty_zoneIds = Some [] \<and>
   hook_empty_zoneIds \<notin> set (getApplicableWebhooks
      (idle_service\<lparr>webhooks := [hook_all_zones, hook_empty_zoneIds]\<rparr>) inside_event)"
  using C2_queued_iff_filters_pass
    [of hook_all_zones "idle_service\<lparr>webhooks := [hook_all_zones, hook_empty_zoneIds]\<rparr>"
        inside_event "''z2''"]
    C2_queued_iff_filters_pass
    [of hook_empty_zoneIds "idle_service\<lparr>webhooks := [hook_all_zones, hook_empty_zoneIds]\<rparr>"
        inside_event "''z2''"]
  by (simp add: idle_service_def hook_all_zones_def hook_empty_zoneIds_def inside_event_def
                newEvent_def scanned_zone_def getApplicableWebhooks_def applicable_def)

theorem C2_empty_zoneIds_counterexample:
  "hook_empty_zoneIds \<in> set (webhooks (idle_service\<lparr>webhooks := [hook_empty_zoneIds]\<rparr>)) \<and>
   spec_matches inside_event hook_empty_zoneIds \<and>
   getApplicableWebhooks (idle_service\<lparr>webhooks := [hook_empty_zoneIds]\<rparr>) inside_event = [] \<and>
   deliveryQueue (processGeofenceEvent (idle_service\<lparr>webhooks := [hook_empty_zoneIds]\<rparr>)
                    inside_event) = []"
  by (simp add: idle_service_def hook_empty_zoneIds_def inside_event_def newEvent_def
                scanned_zone_def getApplicableWebhooks_def applicable_def spec_matches_def
                filter_empty_def processGeofenceEvent_def)

subsection \<open>Test deliveries and the delivery statistics\<close>

lemma deliverWebhook_loop_counters:
  "deliverWebhook_loop svc env webhook payload True startTime retryCount = (res, svc') \<Longrightarrow>
   webhooksDelivered (stats svc') = webhooksDelivered (stats svc) \<and>
   eventsDetected (stats svc') = eventsDetected (stats svc)"
proof (induction svc env webhook payload "True" startTime retryCount
       rule: deliverWebhook_loop.induct)
  case (1 svc env webhook payload startTime retryCount)
  show ?case
  proof (cases "retryCount \<le> maxRetries svc")
    case False
    with 1(2) show ?thesis by (simp add: deliverWebhook_loop.simps)
  next
    case True
    show ?thesis
    proof (cases "post env (w_url webhook) payload retryCount")
      case (Inr status)
      with True 1(2) show ?thesis
        by (auto simp: deliverWebhook_loop.simps[of svc] Let_def updateDeliveryStats_def)
    next
      case (Inl failure)
      show ?thesis
      proof (cases "retryCount + 1 \<le> maxRetries svc")
        case again: True
        with True Inl 1(2) have
          "deliverWebhook_loop svc env webhook payload True startTime (retryCount + 1) = (res, svc')"
          by (simp add: deliverWebhook_loop.simps[of svc env webhook payload True startTime retryCount])
        from 1(1)[OF True Inl refl again this] show ?thesis .
      next
        case False
        with True Inl 1(2) show ?thesis
          by (auto simp: deliverWebhook_loop.simps[of svc env webhook payload True startTime retryCount])
      qed
    qed
  qed
qed

text \<open>
  C4, at a failing input. One webhook is registered and the statistics are all zero.
  A test delivery to an endpoint that refuses every attempt leaves \<open>deliveryFailures\<close>
  at 1, and a test delivery answered with status 200 after 120 ms leaves
  \<open>averageDeliveryTime\<close> at 120: only the \<open>webhooksDelivered\<close> counter is guarded by
  \<open>isTest\<close>.
\<close>

theorem C4_testWebhook_changes_stats:
  "stats (snd (testWebhook hmac json endpoint_down 1700000000000
                 (idle_service\<lparr>webhooks := [hook_all_zones]\<rparr>) ''hook-a'')) =
     \<lparr>eventsDetected = 0, webhooksDelivered = 0, deliveryFailures = 1,
      averageDeliveryTime = 0\<rparr> \<and>
   stats (snd (testWebhook hmac json endpoint_up 1700000000000
                 (idle_service\<lparr>webhooks := [hook_all_zones]\<rparr>) ''hook-a'')) =
     \<lparr>eventsDetected = 0, webhooksDelivered = 0, deliveryFailures = 0,
      averageDeliveryTime = 120\<rparr> \<and>
   stats (idle_service\<lparr>webhooks := [hook_all_zones]\<rparr>) =
     \<lparr>eventsDetected = 0, webhooksDelivered = 0, deliveryFailures = 0,
      averageDeliveryTime = 0\<rparr>"
  by (simp add: testWebhook_def deliverWebhook_def deliverWebhook_loop.simps idle_service_def
                hook_all_zones_def endpoint_down_def endpoint_up_def updateDeliveryStats_def
                Let_def)

subsection \<open>Payload signatures\<close>

lemma deliverToEach_signed:
  "(w, p) \<in> set (deliverToEach hmac json event payload hooks) \<Longrightarrow> w_secret w = Some k \<Longrightarrow>
   k \<noteq> [] \<Longrightarrow> p_signature p = Some (hmac k (json event))"
  by (induction hooks arbitrary: payload)
     (auto simp: Let_def truthy_def generateSignature_def split: if_splits)

text \<open>
  The first attempt of a delivery to a webhook with a secret is handed the signature made
  with that secret. This holds of the first attempt only.
\<close>

lemma first_attempt_signed:
  assumes "calls = deliverEventToWebhooks hmac json zoneLookup now event hooks"
    and "i < length calls" and "w_secret (fst (calls ! i)) = Some k" and "k \<noteq> []"
  shows "p_signature (payloadPosted calls i 0) = Some (hmac k (json event))"
proof -
  from assms(2) have "(fst (calls ! i), snd (calls ! i)) \<in> set calls" by simp
  with assms(1) have "(fst (calls ! i), snd (calls ! i)) \<in>
      set (deliverToEach hmac json event
             \<lparr>p_event = event, p_zone = the (zoneLookup (e_zoneId event)),
              p_userId = e_userId event, p_timestamp = now, p_signature = None\<rparr> hooks)"
    by (auto simp: deliverEventToWebhooks_def split: option.splits)
  from deliverToEach_signed[OF this assms(3,4)] show ?thesis
    by (simp add: payloadPosted_def)
qed

text \<open>
  C6, at two failing inputs that come from the one shared payload object. In the first,
  two webhooks are registered that match the event, one with the secret \<open>s3cr3t\<close> and
  after it one with no secret: the event is queued for both, and the payload handed to
  the delivery of the second carries the signature made with the secret of the first.
  In the second, the webhook registered after the first has the secret \<open>0ther\<close>: a second
  attempt of the delivery to the first webhook posts the signature made with \<open>0ther\<close>.
\<close>

theorem C6_signature_leaks_to_unsigned_webhook:
  "deliveryQueue (processGeofenceEvent
      (idle_service\<lparr>webhooks := [hook_all_zones, hook_no_secret]\<rparr>) inside_event) =
     [(inside_event, [hook_all_zones, hook_no_secret])] \<and>
   map (\<lambda>(w, p). (w_id w, w_secret w, p_signature p))
     (deliverEventToWebhooks hmac json (\<lambda>zid. Some scanned_zone) 1700000000000 inside_event
        [hook_all_zones, hook_no_secret]) =
     [(''hook-a'', Some ''s3cr3t'', Some (hmac ''s3cr3t'' (json inside_event))),
      (''hook-c'', None, Some (hmac ''s3cr3t'' (json inside_event)))] \<and>
   deliveryQueue (processGeofenceEvent
      (idle_service\<lparr>webhooks := [hook_all_zones, hook_other_secret]\<rparr>) inside_event) =
     [(inside_event, [hook_all_zones, hook_other_secret])] \<and>
   w_secret (fst (deliverEventToWebhooks hmac json (\<lambda>zid. Some scanned_zone) 1700000000000
                    inside_event [hook_all_zones, hook_other_secret] ! 0)) = Some ''s3cr3t'' \<and>
   p_signature
     (payloadPosted
        (deliverEventToWebhooks hmac json (\<lambda>zid. Some scanned_zone) 1700000000000
           inside_event [hook_all_zones, hook_other_secret]) 0 1) =
     Some (hmac ''0ther'' (json inside_event))"
  by (simp add: processGeofenceEvent_def getApplicableWebhooks_def applicable_def
                deliverEventToWebhooks_def payloadPosted_def idle_service_def
                hook_all_zones_def hook_no_secret_def hook_other_secret_def inside_event_def
                newEvent_def scanned_zone_def truthy_def generateSignature_def Let_def)

subsection \<open>Connection health scores\<close>




lemma recordResponseTime_scores [simp]:
  "connectionHealthScores (recordResponseTime lb responseTime now) = connectionHealthScores lb"
  by (simp add: recordResponseTime_def recordRequest_def Let_def)

lemma updateConnectionHealth_range:
  "connectionHealthScores (updateConnectionHealth lb c success responseTime) c = Some s \<Longrightarrow>
   0 \<le> s \<and> s \<le> 100"
  by (auto simp: updateConnectionHealth_def Let_def)

lemma updateConnectionHealth_first:
  "connectionHealthScores lb c = None \<Longrightarrow>
   connectionHealthScores (updateConnectionHealth lb c success responseTime) c =
     Some (if success then (if responseTime < 100 then 55 else if responseTime < 500 then 52 else 51)
           else 40)"
  by (simp add: updateConnectionHealth_def scoreOrDefault_def Let_def)

text \<open>
  The two functions that read a score, taken alone: a stored score of 0 is read as 50.
  A score of 10 goes to 0 with one failure and to 40 with the next, and the order by
  score puts a connection at 0 before one at 30.
\<close>

lemma zero_score_read_as_default:
  "connectionHealthScores
     (updateConnectionHealth
        (governor\<lparr>connectionHealthScores := [''primary'' \<mapsto> 10]\<rparr>) ''primary'' False 40)
     ''primary'' = Some 0 \<and>
   connectionHealthScores
     (updateConnectionHealth
        (updateConnectionHealth
           (governor\<lparr>connectionHealthScores := [''primary'' \<mapsto> 10]\<rparr>) ''primary'' False 40)
        ''primary'' False 40)
     ''primary'' = Some 40 \<and>
   sort_key
     (\<lambda>c. - scoreOrDefault
              (governor\<lparr>connectionHealthScores := [''primary'' \<mapsto> 0, ''replica-1'' \<mapsto> 30]\<rparr>) c)
     [''replica-1'', ''primary''] = [''primary'', ''replica-1'']"
  by (simp add: updateConnectionHealth_def scoreOrDefault_def governor_def Let_def)

text \<open>
  C8, at a failing input. A request is queued and the loop takes its turn at clock
  reading 5000. The request is handed to \<open>processRequest\<close>, whose call of
  \<open>getBestConnection\<close> throws, because the connection manager has no method
  \<open>getAvailableConnections\<close>: no handle is selected, the operation of the request is not
  called, and the failure handler throws in turn at \<open>getConnection\<close>, before it updates a
  score and before it rejects or queues the request again. The periodic health check
  throws at \<open>healthCheck\<close> and changes nothing. The table of scores stays empty.
\<close>

theorem C8_no_handle_selected:
  "processQueue_turn 5000 (governor\<lparr>requestQueue := [queued ''r1''], queuedRequests := 1\<rparr>) =
     ([(queued ''r1'', 5000)], 10, governor) \<and>
   getBestConnection governor [''replica-1'', ''primary''] =
     Inl (TypeError ''this.connectionManager.getAvailableConnections is not a function'') \<and>
   fst (processRequest governor (pool_answers (queued ''r1'')) (queued ''r1'') 5000) = False \<and>
   fst (snd (processRequest governor (pool_answers (queued ''r1'')) (queued ''r1'') 5000)) =
     Unsettled (TypeError ''this.connectionManager.getConnection is not a function'') \<and>
   connectionHealthScores
     (snd (snd (processRequest governor (pool_answers (queued ''r1'')) (queued ''r1'') 5000))) =
     Map.empty \<and>
   performHealthCheck governor [(''primary'', False)] = governor"
  by (simp add: processQueue_turn.simps canProcessRequest_def processRequest_def
                getBestConnection_def handleRequestFailure_def performHealthCheck_def
                callOnManager_def ConnectionManager_methods_def EventEmitter_methods_def
                recordResponseTime_def recordRequest_def governor_def queued_def
                pool_answers_def Let_def)

subsection \<open>The rate limit\<close>

lemma processQueue_turn_drains:
  "length (filter (\<lambda>time. time > now - int (windowSizeMs (lbConfig lb))) (requestWindow lb))
     < maxRequestsPerSecond (lbConfig lb) \<Longrightarrow>
   fst (processQueue_turn now lb) = map (\<lambda>request. (request, now)) (requestQueue lb)"
proof (induction now lb rule: processQueue_turn.induct)
  case (1 now lb)
  show ?case
  proof (cases "requestQueue lb")
    case Nil
    then show ?thesis by (simp add: processQueue_turn.simps[of now lb])
  next
    case (Cons request rest)
    let ?lb1 = "lb\<lparr>requestWindow :=
                   filter (\<lambda>time. time > now - int (windowSizeMs (lbConfig lb))) (requestWindow lb)\<rparr>"
    let ?lb2 = "?lb1\<lparr>requestQueue := rest, queuedRequests := queuedRequests ?lb1 - 1\<rparr>"
    have can: "canProcessRequest lb now = (True, ?lb1)"
      using 1(2) by (simp add: canProcessRequest_def Let_def)
    have "length (filter (\<lambda>time. time > now - int (windowSizeMs (lbConfig ?lb2))) (requestWindow ?lb2))
            < maxRequestsPerSecond (lbConfig ?lb2)"
      using 1(2) by simp
    from 1(1)[OF Cons can[symmetric] refl this]
    have "fst (processQueue_turn now ?lb2) = map (\<lambda>request. (request, now)) rest" by simp
    with Cons can show ?thesis
      by (simp add: processQueue_turn.simps[of now lb] split_beta)
  qed
qed





subsection \<open>Retries of executeRead and executeWrite\<close>

lemma retryLoop_cases:
  assumes "retryLoop acquire message operation a pool w = (r, pool', w', steps)"
  obtains
    (finished) "\<not> a < 3" "r = Inl (Tile38ConnectionError message)" "steps = []"
      "pool' = pool" "w' = w"
  | (success) c v where "a < 3" "acquire a pool = (Inr c, pool')" "operation a c w = (Inr v, w')"
      "r = Inr v" "steps = [Attempt (Some c) True]"
  | (failed) c pool1 e w1 steps' where "a < 3" "acquire a pool = (Inr c, pool1)"
      "operation a c w = (Inl e, w1)"
      "retryLoop acquire message operation (a + 1) pool1 w1 = (r, pool', w', steps')"
      "steps = Attempt (Some c) False # backoff a @ steps'"
  | (no_handle) e pool1 steps' where "a < 3" "acquire a pool = (Inl e, pool1)"
      "retryLoop acquire message operation (a + 1) pool1 w = (r, pool', w', steps')"
      "steps = Attempt None False # backoff a @ steps'"
proof (cases "a < 3")
  case False
  with assms have "r = Inl (Tile38ConnectionError message)" "steps = []" "pool' = pool" "w' = w"
    by (simp_all add: retryLoop.simps[of acquire message operation a pool w]
                      MAX_CONNECTION_ATTEMPTS_def)
  with False show ?thesis by (rule finished)
next
  case True
  obtain h pool1 where acq: "acquire a pool = (h, pool1)" by (cases "acquire a pool")
  show ?thesis
  proof (cases h)
    case (Inl e)
    obtain r2 p2 w2 s2 where
      rec: "retryLoop acquire message operation (a + 1) pool1 w = (r2, p2, w2, s2)"
      by (cases "retryLoop acquire message operation (a + 1) pool1 w")
    with assms True acq Inl have "r = r2" "pool' = p2" "w' = w2"
      "steps = Attempt None False # backoff a @ s2"
      by (simp_all add: retryLoop.simps[of acquire message operation a pool w]
                        MAX_CONNECTION_ATTEMPTS_def)
    with True acq Inl rec show ?thesis using no_handle by blast
  next
    case (Inr c)
    obtain res w1 where op: "operation a c w = (res, w1)" by (cases "operation a c w")
    show ?thesis
    proof (cases res)
      case (Inr v)
      with assms True acq \<open>h = Inr c\<close> op have "r = Inr v" "pool' = pool1" "w' = w1"
        "steps = [Attempt (Some c) True]"
        by (simp_all add: retryLoop.simps[of acquire message operation a pool w]
                          MAX_CONNECTION_ATTEMPTS_def)
      with True acq \<open>h = Inr c\<close> op Inr show ?thesis using success by blast
    next
      case (Inl e)
      obtain r2 p2 w2 s2 where
        rec: "retryLoop acquire message operation (a + 1) pool1 w1 = (r2, p2, w2, s2)"
        by (cases "retryLoop acquire message operation (a + 1) pool1 w1")
      with assms True acq \<open>h = Inr c\<close> op Inl have "r = r2" "pool' = p2" "w' = w2"
        "steps = Attempt (Some c) False # backoff a @ s2"
        by (simp_all add: retryLoop.simps[of acquire message operation a pool w]
                          MAX_CONNECTION_ATTEMPTS_def)
      with True acq \<open>h = Inr c\<close> op Inl rec show ?thesis using failed by blast
    qed
  qed
qed

lemma attemptsOf_backoff [simp]: "attemptsOf (backoff a @ steps) = attemptsOf steps"
  by (simp add: backoff_def)

lemma delaysOf_backoff [simp]:
  "delaysOf (backoff a @ steps) = (if a < 2 then 1000 * (a + 1) # delaysOf steps else delaysOf steps)"
  by (simp add: backoff_def MAX_CONNECTION_ATTEMPTS_def)















subsection \<open>Deleting a zone twice\<close>

lemma retryLoop_readZone:
  assumes "retryLoop acquire message (readZone pg env zoneId) a pool collection =
             (r, pool', collection', steps)"
  shows "collection' = collection \<and> (collection zoneId = None \<longrightarrow> r \<noteq> Inr (Some zone))"
  using assms
proof (induction "3 - a" arbitrary: a pool steps)
  case 0
  from "0.prems" show ?case
    by (cases rule: retryLoop_cases) (use "0.hyps" in simp_all)
next
  case (Suc k)
  then have k: "k = 3 - (a + 1)" by simp
  from Suc.prems show ?case
  proof (cases rule: retryLoop_cases)
    case finished
    then show ?thesis by simp
  next
    case (success c v)
    then show ?thesis by (auto simp: readZone_def split: if_splits option.splits)
  next
    case (failed c pool1 e w1 steps')
    from failed(3) have "w1 = collection"
      by (auto simp: readZone_def split: if_splits option.splits)
    with Suc.hyps(1)[OF k] failed(4) show ?thesis by blast
  next
    case (no_handle e pool1 steps')
    with Suc.hyps(1)[OF k] show ?thesis by blast
  qed
qed

lemma retryLoop_delZone:
  assumes "retryLoop acquire message (delZone env zoneId) a pool collection =
             (Inr u, pool', collection', steps)"
  shows "collection' zoneId = None"
  using assms
proof (induction "3 - a" arbitrary: a pool collection steps)
  case 0
  from "0.prems" show ?case
    by (cases rule: retryLoop_cases) (use "0.hyps" in simp_all)
next
  case (Suc k)
  then have k: "k = 3 - (a + 1)" by simp
  from Suc.prems show ?case
  proof (cases rule: retryLoop_cases)
    case finished
    then show ?thesis by simp
  next
    case (success c v)
    then show ?thesis by (auto simp: delZone_def split: if_splits)
  next
    case (failed c pool1 e w1 steps')
    with Suc.hyps(1)[OF k] show ?thesis by blast
  next
    case (no_handle e pool1 steps')
    with Suc.hyps(1)[OF k] show ?thesis by blast
  qed
qed

lemma executeRead_readZone:
  assumes "executeRead up (readZone pg env zoneId) pool collection =
             (r, pool', collection', steps)"
  shows "collection' = collection \<and> (collection zoneId = None \<longrightarrow> r \<noteq> Inr (Some zone))"
  using assms unfolding executeRead_def by (rule retryLoop_readZone)

lemma executeWrite_delZone:
  assumes "executeWrite up (delZone env zoneId) pool collection =
             (Inr u, pool', collection', steps)"
  shows "collection' zoneId = None"
  using assms unfolding executeWrite_def by (rule retryLoop_delZone)

lemma getZone_absent:
  assumes "collection zoneId = None" and "cacheTimestamps zms zoneId = None"
  shows "fst (getZone pg env now zms collection zoneId) = None"
proof -
  obtain r pool' collection' steps where
    ex: "executeRead (connUp env) (readZone pg env zoneId)
           (zmPool (removeCachedZone zms zoneId)) collection = (r, pool', collection', steps)"
    by (cases "executeRead (connUp env) (readZone pg env zoneId)
                 (zmPool (removeCachedZone zms zoneId)) collection")
  from executeRead_readZone[OF ex] assms(1)
  have "\<And>zone. r \<noteq> Inr (Some zone)" by blast
  with ex assms(2) show ?thesis
    by (cases r) (auto simp: getZone_def getCachedZone_def split: option.splits)
qed

text \<open>
  C3, as the code has it. When \<open>deleteZone(id)\<close> succeeds, the zone is gone from the
  index and from the in-memory cache, and a second \<open>deleteZone(id)\<close> then raises
  \<open>ZoneValidationError\<close> with the message \<open>Zone not found: id\<close>, whatever the connections do
  and whenever it is called: the second call is not a no-op that succeeds.
\<close>

theorem C3_second_delete_raises_not_found:
  assumes "ZoneManagementService_deleteZone pg readEnv writeEnv now zms collection zoneId =
             (Inr True, zms', collection')"
  shows "collection' zoneId = None \<and> zoneCache zms' zoneId = None \<and>
         cacheTimestamps zms' zoneId = None \<and>
         fst (ZoneManagementService_deleteZone pg' readEnv' writeEnv' now' zms' collection' zoneId) =
           Inl (ZoneValidationError (''Zone not found: '' @ zoneId))"
proof -
  obtain found zms1 collection1 where
    g: "getZone pg readEnv now zms collection zoneId = (found, zms1, collection1)"
    by (cases "getZone pg readEnv now zms collection zoneId")
  with assms obtain zone where found: "found = Some zone"
    by (cases found) (auto simp: ZoneManagementService_deleteZone_def)
  obtain r pool' collection2 steps where
    w: "executeWrite (connUp writeEnv) (delZone writeEnv zoneId) (zmPool zms1) collection1 =
          (r, pool', collection2, steps)"
    by (cases "executeWrite (connUp writeEnv) (delZone writeEnv zoneId) (zmPool zms1) collection1")
  with assms g found obtain u where r: "r = Inr u"
    by (cases r) (auto simp: ZoneManagementService_deleteZone_def)
  from assms g found w r have z: "zms' = removeCachedZone (zms1\<lparr>zmPool := pool'\<rparr>) zoneId"
    and c: "collection' = collection2"
    by (simp_all add: ZoneManagementService_deleteZone_def)
  from executeWrite_delZone[OF w[unfolded r]] c
  have gone: "collection' zoneId = None" by simp
  from z have cache: "zoneCache zms' zoneId = None" "cacheTimestamps zms' zoneId = None"
    by (simp_all add: removeCachedZone_def)
  have "fst (getZone pg' readEnv' now' zms' collection' zoneId) = None"
    using gone cache(2) by (rule getZone_absent)
  then have "fst (ZoneManagementService_deleteZone pg' readEnv' writeEnv' now' zms' collection' zoneId) =
               Inl (ZoneValidationError (''Zone not found: '' @ zoneId))"
    by (cases "getZone pg' readEnv' now' zms' collection' zoneId")
       (simp add: ZoneManagementService_deleteZone_def)
  with gone cache show ?thesis by blast
qed

lemma first_delete:
  "ZoneManagementService_deleteZone (\<lambda>s. Some delhi_coords) all_up all_up 1700000000000
     fresh_manager one_zone_index ''z1'' =
   (Inr True, fresh_manager\<lparr>zmPool := \<lparr>replicas = [], roundRobinIndex = 1\<rparr>\<rparr>, Map.empty)"
  by (simp add: ZoneManagementService_deleteZone_def getZone_def getCachedZone_def
                executeRead_def executeWrite_def retryLoop.simps MAX_CONNECTION_ATTEMPTS_def
                getReadConnection_def getWriteConnection_def readZone_def delZone_def
                parseZoneFromTile38_def parseFields_def noFields_def str_or_def
                removeCachedZone_def cacheZone_def all_up_def one_zone_index_def
                fresh_manager_def delhi_coords_def Let_def)

theorem C3_second_delete_raises_not_found_witness:
  "ZoneManagementService_deleteZone (\<lambda>s. Some delhi_coords) all_up all_up 1700000000000
     fresh_manager one_zone_index ''z1'' =
   (Inr True, fresh_manager\<lparr>zmPool := \<lparr>replicas = [], roundRobinIndex = 1\<rparr>\<rparr>, Map.empty) \<and>
   fst (ZoneManagementService_deleteZone (\<lambda>s. Some delhi_coords) all_up all_up 1700000000500
          (fresh_manager\<lparr>zmPool := \<lparr>replicas = [], roundRobinIndex = 1\<rparr>\<rparr>) Map.empty ''z1'') =
     Inl (ZoneValidationError ''Zone not found: z1'')"
  using C3_second_delete_raises_not_found[OF first_delete,
          of "\<lambda>s. Some delhi_coords" all_up all_up 1700000000500]
        first_delete
  by simp

theorem C3_second_delete_counterexample:
  "one_zone_index ''z1'' \<noteq> None \<and>
   fst (ZoneManagementService_deleteZone (\<lambda>s. Some delhi_coords) all_up all_up 1700000000000
          fresh_manager one_zone_index ''z1'') = Inr True \<and>
   (case ZoneManagementService_deleteZone (\<lambda>s. Some delhi_coords) all_up all_up 1700000000000
           fresh_manager one_zone_index ''z1'' of
      (r, zms', collection') \<Rightarrow>
        fst (ZoneManagementService_deleteZone (\<lambda>s. Some delhi_coords) all_up all_up
               1700000000500 zms' collection' ''z1'')) =
     Inl (ZoneValidationError ''Zone not found: z1'')"
  by (simp add: ZoneManagementService_deleteZone_def getZone_def getCachedZone_def
                executeRead_def executeWrite_def retryLoop.simps MAX_CONNECTION_ATTEMPTS_def
                getReadConnection_def getWriteConnection_def readZone_def delZone_def
                parseZoneFromTile38_def parseFields_def noFields_def str_or_def
                removeCachedZone_def cacheZone_def all_up_def one_zone_index_def
                fresh_manager_def delhi_coords_def Let_def backoff_def)

subsection \<open>Ring sizes accepted by zone creation\<close>

lemma validateZoneName_error:
  "validateZoneName name = Some e \<Longrightarrow> \<exists>msg. e = ZoneValidationError msg"
  by (auto simp: validateZoneName_def split: if_splits)

lemma validateZoneCreationRequest_error:
  "validateZoneCreationRequest request = Some e \<Longrightarrow> \<exists>msg. e = ZoneValidationError msg"
  by (auto simp: validateZoneCreationRequest_def split: if_splits option.splits
           dest: validateZoneName_error)

lemma calculateBoundingBox_error:
  "calculateBoundingBox coordinates = Inl e \<Longrightarrow> \<exists>msg. e = ZoneValidationError msg"
  by (auto simp: calculateBoundingBox_def split: list.splits)

lemma validateEach_error:
  "validateEach i coordinates = Some e \<Longrightarrow> \<exists>msg. e = ZoneValidationError msg"
proof (induction coordinates arbitrary: i)
  case Nil
  then show ?case by simp
next
  case (Cons c cs)
  show ?case
  proof (cases "validateCoordinate c")
    case None
    with Cons show ?thesis by simp
  next
    case (Some err)
    then obtain m where "err = LocationValidationError m"
      by (auto simp: validateCoordinate_def split: if_splits)
    with Some Cons.prems show ?thesis by auto
  qed
qed

lemma validateEach_valid:
  "\<forall>c \<in> set coordinates. validateCoordinate c = None \<Longrightarrow> validateEach i coordinates = None"
  by (induction coordinates arbitrary: i) simp_all

lemma validateZonePolygon_error:
  "validateZonePolygon coordinates = Inl e \<Longrightarrow> \<exists>msg. e = ZoneValidationError msg"
  by (auto simp: validateZonePolygon_def Let_def split: if_splits option.splits
           dest: validateEach_error)

lemma validateZonePolygon_ring:
  "validateZonePolygon coordinates = Inr ring \<Longrightarrow>
   3 \<le> length coordinates \<and> length coordinates \<le> 100 \<and>
   (ring = coordinates \<or> ring = coordinates @ [coordinates ! 0])"
  by (auto simp: validateZonePolygon_def Let_def split: if_splits option.splits)

lemma validateFourCoordinatePolygon_error:
  "validateFourCoordinatePolygon ring = Some e \<Longrightarrow> \<exists>msg. e = ZoneValidationError msg"
  by (auto simp: validateFourCoordinatePolygon_def split: if_splits)

lemma validateFourCoordinatePolygon_length:
  "validateFourCoordinatePolygon ring = None \<Longrightarrow> length ring = 4 \<or> length ring = 5"
  by (auto simp: validateFourCoordinatePolygon_def split: if_splits)

lemma createZone_rejects_length:
  assumes "length (q_coordinates request) \<le> 2 \<or> 6 \<le> length (q_coordinates request)"
  shows "\<exists>msg. ZoneManagementService_createZone pg asStored readEnv writeEnv intersects now newId
                 zms collection request = (Inl (ZoneValidationError msg), zms, collection)"
proof (cases "validateZoneCreationRequest request")
  case (Some e)
  with validateZoneCreationRequest_error[OF Some] show ?thesis
    by (auto simp: ZoneManagementService_createZone_def)
next
  case None
  show ?thesis
  proof (cases "calculateBoundingBox (q_coordinates request)")
    case (Inl e)
    with None calculateBoundingBox_error[OF Inl] show ?thesis
      by (auto simp: ZoneManagementService_createZone_def)
  next
    case (Inr box)
    show ?thesis
    proof (cases "validateZonePolygon (q_coordinates request)")
      case (Inl e)
      with None Inr validateZonePolygon_error[OF Inl] show ?thesis
        by (auto simp: ZoneManagementService_createZone_def)
    next
      case ring: (Inr ring)
      from validateZonePolygon_ring[OF ring] assms
      have "length ring \<noteq> 4 \<and> length ring \<noteq> 5" by auto
      then obtain e where four: "validateFourCoordinatePolygon ring = Some e"
        by (cases "validateFourCoordinatePolygon ring")
           (auto dest: validateFourCoordinatePolygon_length)
      with None Inr ring validateFourCoordinatePolygon_error[OF four] show ?thesis
        by (auto simp: ZoneManagementService_createZone_def)
    qed
  qed
qed

lemma retryLoop_first_attempt:
  "acquire 0 pool = (Inr c, pool1) \<Longrightarrow> operation 0 c w = (Inr v, w1) \<Longrightarrow>
   retryLoop acquire message operation 0 pool w = (Inr v, pool1, w1, [Attempt (Some c) True])"
  by (simp add: retryLoop.simps[of acquire message operation 0 pool w] MAX_CONNECTION_ATTEMPTS_def)

lemma getReadConnection_primary_up:
  "up Primary \<Longrightarrow> \<exists>c. getReadConnection up pool =
                         (Inr c, pool\<lparr>roundRobinIndex := roundRobinIndex pool + 1\<rparr>)"
  by (simp add: getReadConnection_def Let_def)

lemma checkEachOverlap_none:
  "\<forall>z \<in> set zones. \<not> polygonsOverlap ring (z_coordinates z) \<Longrightarrow> checkEachOverlap ring zones = None"
  by (induction zones) simp_all

lemma isSelfIntersecting_four:
  "length ring = 4 \<Longrightarrow> \<not> isSelfIntersecting ring"
  by (simp add: isSelfIntersecting_def upt_rec)

lemma createZone_accepts_triangle:
  assumes req: "validateZoneCreationRequest request = None"
    and len: "length (q_coordinates request) = 3"
    and valid: "\<forall>c \<in> set (q_coordinates request). validateCoordinate c = None"
    and open_ring: "\<not> calculateDistance (q_coordinates request ! 0) (q_coordinates request ! 2)
                       < 1 / 1000"
    and area_lo: "100 \<le> calculatePolygonArea (q_coordinates request @ [q_coordinates request ! 0])"
    and area_hi: "calculatePolygonArea (q_coordinates request @ [q_coordinates request ! 0])
                    \<le> 1000000000"
    and no_overlap: "\<forall>box objects z. intersects box = Some objects \<longrightarrow>
                       z \<in> set (parseZonesFromTile38Results pg objects) \<longrightarrow>
                       \<not> polygonsOverlap (q_coordinates request @ [q_coordinates request ! 0])
                            (z_coordinates z)"
    and read_ok: "connUp readEnv 0 Primary" "\<not> commandFails readEnv 0"
    and write_ok: "connUp writeEnv 0 Primary" "\<not> commandFails writeEnv 0"
  shows "\<exists>zone. fst (ZoneManagementService_createZone pg asStored readEnv writeEnv intersects now
                       newId zms collection request) = Inr zone \<and>
                z_coordinates zone = q_coordinates request @ [q_coordinates request ! 0] \<and>
                z_id zone = newId \<and> z_status zone = ACTIVE"
proof -
  let ?cs = "q_coordinates request"
  let ?ring = "?cs @ [?cs ! 0]"
  from len obtain c0 rest where cs: "?cs = c0 # rest" by (cases ?cs) auto
  then obtain box where box: "calculateBoundingBox ?cs = Inr box"
    by (simp add: calculateBoundingBox_def)
  have l4: "length ?ring = 4" using len by simp
  have poly: "validateZonePolygon ?cs = Inr ?ring"
    using len validateEach_valid[OF valid, of 0] open_ring area_lo area_hi
          isSelfIntersecting_four[OF l4]
    by (simp add: validateZonePolygon_def Let_def)
  have four: "validateFourCoordinatePolygon ?ring = None"
    using l4 by (simp add: validateFourCoordinatePolygon_def)
  from getReadConnection_primary_up[of "connUp readEnv 0" "zmPool zms"] read_ok(1) obtain c where
    acq: "getReadConnection (connUp readEnv 0) (zmPool zms) =
            (Inr c, (zmPool zms)\<lparr>roundRobinIndex := roundRobinIndex (zmPool zms) + 1\<rparr>)"
    by blast
  let ?pool1 = "(zmPool zms)\<lparr>roundRobinIndex := roundRobinIndex (zmPool zms) + 1\<rparr>"
  let ?cands = "filter (\<lambda>zone. z_status zone = ACTIVE)
                  (case intersects box of None \<Rightarrow> []
                   | Some objects \<Rightarrow> parseZonesFromTile38Results pg objects)"
  have rl: "retryLoop (\<lambda>attempt. getReadConnection (connUp readEnv attempt))
              ''All read operation attempts failed''
              (\<lambda>attempt service w.
                 if commandFails readEnv attempt then (Inl (Error ''INTERSECTS failed''), w)
                 else (Inr (intersects box), w))
              0 (zmPool zms) collection =
            (Inr (intersects box), ?pool1, collection, [Attempt (Some c) True])"
    by (rule retryLoop_first_attempt) (use acq read_ok(2) in simp_all)
  have search: "searchOverlapCandidates pg readEnv intersects box (zmPool zms) collection =
                  (Inr ?cands, ?pool1)"
    by (simp add: searchOverlapCandidates_def executeRead_def rl)
  have "\<forall>z \<in> set ?cands. \<not> polygonsOverlap ?ring (z_coordinates z)"
  proof
    fix z assume "z \<in> set ?cands"
    then obtain objects where "intersects box = Some objects"
      "z \<in> set (parseZonesFromTile38Results pg objects)"
      by (cases "intersects box") auto
    with no_overlap show "\<not> polygonsOverlap ?ring (z_coordinates z)" by blast
  qed
  from checkEachOverlap_none[OF this] have ov: "checkEachOverlap ?ring ?cands = None" .
  let ?zone = "\<lparr>z_id = newId, z_name = q_name request, z_type = q_type request,
                z_status = ACTIVE, z_coordinates = ?ring,
                z_metadata = Some
                  \<lparr>riskLevel =
                     (case q_riskLevel request of
                        None \<Rightarrow> getDefaultRiskLevel (q_type request)
                      | Some r \<Rightarrow> if r = 0 then getDefaultRiskLevel (q_type request) else r),
                   createdBy = q_createdBy request\<rparr>\<rparr>"
  have wacq: "getWriteConnection (connUp writeEnv 0) ?pool1 = (Inr Primary, ?pool1)"
    using write_ok(1) by (simp add: getWriteConnection_def)
  have store: "executeWrite (connUp writeEnv)
                 (\<lambda>attempt service w.
                    if commandFails writeEnv attempt then (Inl (Error ''SET failed''), w)
                    else (Inr (), w(newId \<mapsto> asStored ?zone)))
                 ?pool1 collection =
               (Inr (), ?pool1, collection(newId \<mapsto> asStored ?zone),
                [Attempt (Some Primary) True])"
    unfolding executeWrite_def
    by (rule retryLoop_first_attempt) (use wacq write_ok(2) in simp_all)
  have "fst (ZoneManagementService_createZone pg asStored readEnv writeEnv intersects now
               newId zms collection request) = Inr ?zone"
    using req box poly four search ov store
    by (simp add: ZoneManagementService_createZone_def Let_def)
  then show ?thesis by simp
qed
lemma sin_quarter_sq: "sin (pi / 4) * sin (pi / 4) = 1 / 2"
proof -
  have "sin (pi / 4) * sin (pi / 4) = (sqrt 2 / 2) * (sqrt 2 / 2)" by (simp add: sin_45)
  also have "\<dots> = (sqrt 2 * sqrt 2) / 4" by simp
  also have "\<dots> = 1 / 2" by simp
  finally show ?thesis .
qed

lemma pole_distance: "calculateDistance (bottom 0) apex = 6371000 * (pi / 2)"
proof -
  have h: "toRadians (latitude apex - latitude (bottom 0)) / 2 = pi / 4"
    by (simp add: toRadians_def apex_def bottom_def)
  have z: "toRadians (longitude apex - longitude (bottom 0)) / 2 = 0"
    by (simp add: toRadians_def apex_def bottom_def)
  have a: "sin (toRadians (latitude apex - latitude (bottom 0)) / 2) *
             sin (toRadians (latitude apex - latitude (bottom 0)) / 2) +
           cos (toRadians (latitude (bottom 0))) * cos (toRadians (latitude apex)) *
             sin (toRadians (longitude apex - longitude (bottom 0)) / 2) *
             sin (toRadians (longitude apex - longitude (bottom 0)) / 2) = 1 / 2"
    unfolding h z by (simp add: sin_quarter_sq)
  have pos: "sqrt (1 / 2) > 0" by simp
  have "atan2 (sqrt (1 / 2)) (sqrt (1 - 1 / 2)) = pi / 4"
    using pos by (simp add: atan2_def arctan_one)
  then show ?thesis
    unfolding calculateDistance_def Let_def a by simp
qed

lemma ring_open: "\<not> calculateDistance (bottom 0) apex < 1 / 1000"
proof -
  have "(0::real) < pi" by (rule pi_gt_zero)
  then have "1 / 1000 < 6371000 * (pi / 2)" using pi_ge_two by simp
  then show ?thesis by (simp add: pole_distance)
qed

lemma sin_lat_bottom [simp]: "sin (toRadians (latitude (bottom k))) = 0"
  by (simp add: bottom_def toRadians_def)

lemma sin_lat_apex [simp]: "sin (toRadians (latitude apex)) = 1"
  by (simp add: apex_def toRadians_def)

lemma lon_bottom [simp]: "toRadians (longitude (bottom k)) = real k * (pi / 18000000)"
  by (simp add: bottom_def toRadians_def)

lemma lon_apex [simp]: "toRadians (longitude apex) = 0"
  by (simp add: apex_def toRadians_def)

lemma areaSum_fan:
  "i \<le> 98 \<Longrightarrow>
   areaSum (map bottom [i ..< 99] @ [apex, bottom 0]) =
     2 * (real (98 - i) * (pi / 18000000)) - 3 * (98 * (pi / 18000000))"
proof (induction "98 - i" arbitrary: i)
  case 0
  then have "i = 98" by simp
  then show ?case by (simp add: upt_rec)
next
  case (Suc n)
  then have i: "i < 98" and n: "n = 98 - Suc i" by simp_all
  then have "Suc i \<le> 98" by simp
  from Suc.hyps(1)[OF n this]
  have ih: "areaSum (map bottom [Suc i ..< 99] @ [apex, bottom 0]) =
              2 * (real (98 - Suc i) * (pi / 18000000)) - 3 * (98 * (pi / 18000000))" .
  from i have split: "[i ..< 99] = i # Suc i # [Suc (Suc i) ..< 99]"
    by (simp add: upt_conv_Cons)
  from i have split': "[Suc i ..< 99] = Suc i # [Suc (Suc i) ..< 99]"
    by (simp add: upt_conv_Cons)
  have "areaSum (map bottom [i ..< 99] @ [apex, bottom 0]) =
          (real (Suc i) * (pi / 18000000) - real i * (pi / 18000000)) * 2 +
          areaSum (map bottom [Suc i ..< 99] @ [apex, bottom 0])"
    unfolding split split' by simp
  also have "\<dots> = 2 * (real (98 - i) * (pi / 18000000)) - 3 * (98 * (pi / 18000000))"
    unfolding ih using i by (simp add: field_simps)
  finally show ?case .
qed

lemma area_fan:
  "calculatePolygonArea (fan_ring @ [fan_ring ! 0]) = 49 * (pi / 18000000) * 6371000 * 6371000"
proof -
  have first: "fan_ring ! 0 = bottom 0" by (simp add: fan_ring_def nth_append)
  have "areaSum (fan_ring @ [fan_ring ! 0]) = - (98 * (pi / 18000000))"
    unfolding first using areaSum_fan[of 0] by (simp add: fan_ring_def)
  moreover have "\<not> length (fan_ring @ [fan_ring ! 0]) < 3" by (simp add: fan_ring_def)
  ultimately show ?thesis by (simp add: calculatePolygonArea_def)
qed

lemma area_fan_bounds:
  "\<not> calculatePolygonArea (fan_ring @ [fan_ring ! 0]) < 100 \<and>
   \<not> calculatePolygonArea (fan_ring @ [fan_ring ! 0]) > 1000000000"
proof -
  have "49 * (pi / 18000000) * 6371000 * 6371000 = pi * (49 * 6371 * 6371 / 18)" by simp
  moreover have "100 \<le> 2 * (49 * 6371 * 6371 / 18 :: real)" by simp
  moreover have "4 * (49 * 6371 * 6371 / 18 :: real) \<le> 1000000000" by simp
  moreover have "2 * (49 * 6371 * 6371 / 18 :: real) \<le> pi * (49 * 6371 * 6371 / 18)"
    using pi_ge_two by (intro mult_right_mono) simp_all
  moreover have "pi * (49 * 6371 * 6371 / 18) \<le> 4 * (49 * 6371 * 6371 / 18 :: real)"
    using pi_less_4 by (intro mult_right_mono) simp_all
  ultimately show ?thesis unfolding area_fan by linarith
qed

lemma area_triangle:
  "calculatePolygonArea (thin_triangle @ [thin_triangle ! 0]) =
     50 * (pi / 18000000) * 6371000 * 6371000"
  by (simp add: thin_triangle_def calculatePolygonArea_def)

lemma area_triangle_bounds:
  "100 \<le> calculatePolygonArea (thin_triangle @ [thin_triangle ! 0]) \<and>
   calculatePolygonArea (thin_triangle @ [thin_triangle ! 0]) \<le> 1000000000"
proof -
  have "50 * (pi / 18000000) * 6371000 * 6371000 = pi * (50 * 6371 * 6371 / 18)" by simp
  moreover have "100 \<le> 2 * (50 * 6371 * 6371 / 18 :: real)" by simp
  moreover have "4 * (50 * 6371 * 6371 / 18 :: real) \<le> 1000000000" by simp
  moreover have "2 * (50 * 6371 * 6371 / 18 :: real) \<le> pi * (50 * 6371 * 6371 / 18)"
    using pi_ge_two by (intro mult_right_mono) simp_all
  moreover have "pi * (50 * 6371 * 6371 / 18) \<le> 4 * (50 * 6371 * 6371 / 18 :: real)"
    using pi_less_4 by (intro mult_right_mono) simp_all
  ultimately show ?thesis unfolding area_triangle by linarith
qed
lemma orientation_bottom_row [simp]: "orientation (bottom a) (bottom b) (bottom c) = 0"
  by (simp add: orientation_def bottom_def)

lemma orientation_bottom_apex [simp]: "orientation (bottom i) (bottom (Suc i)) apex = 2"
proof -
  have v: "(latitude (bottom (Suc i)) - latitude (bottom i)) *
             (longitude apex - longitude (bottom (Suc i))) -
           (longitude (bottom (Suc i)) - longitude (bottom i)) *
             (latitude apex - latitude (bottom (Suc i))) = - (9 / 10000)"
    by (simp add: bottom_def apex_def field_simps)
  show ?thesis unfolding orientation_def Let_def v by simp
qed

lemma orientation_right_edge: "i \<le> 97 \<Longrightarrow> orientation (bottom 98) apex (bottom i) = 2"
proof -
  assume "i \<le> 97"
  then have r: "real i \<le> 97" by simp
  have v: "(latitude apex - latitude (bottom 98)) * (longitude (bottom i) - longitude apex) -
           (longitude apex - longitude (bottom 98)) * (latitude (bottom i) - latitude apex) =
           (real i - 98) * (9 / 10000)"
    by (simp add: bottom_def apex_def field_simps)
  from r have "(real i - 98) * (9 / 10000) \<le> - (9 / 10000)" by simp
  then show ?thesis unfolding orientation_def Let_def v by simp
qed

lemma orientation_left_edge: "1 \<le> i \<Longrightarrow> orientation apex (bottom 0) (bottom i) = 2"
proof -
  assume "1 \<le> i"
  then have r: "1 \<le> real i" by simp
  have v: "(latitude (bottom 0) - latitude apex) * (longitude (bottom i) - longitude (bottom 0)) -
           (longitude (bottom 0) - longitude apex) * (latitude (bottom i) - latitude (bottom 0)) =
           - (real i * (9 / 10000))"
    by (simp add: bottom_def apex_def field_simps)
  from r have "- (real i * (9 / 10000)) \<le> - (9 / 10000)" by simp
  then show ?thesis unfolding orientation_def Let_def v by simp
qed

lemma bottom_edges_apart:
  "i + 2 \<le> j \<Longrightarrow> \<not> linesIntersect (bottom i, bottom (Suc i)) (bottom j, bottom (Suc j))"
  by (simp add: linesIntersect_def Let_def onSegment_def) (simp add: bottom_def field_simps)

lemma bottom_edge_right_edge:
  "i \<le> 96 \<Longrightarrow> \<not> linesIntersect (bottom i, bottom (Suc i)) (bottom 98, apex)"
  by (simp add: linesIntersect_def Let_def orientation_right_edge onSegment_def)
     (simp add: bottom_def)

lemma bottom_edge_left_edge:
  "1 \<le> i \<Longrightarrow> \<not> linesIntersect (bottom i, bottom (Suc i)) (apex, bottom 0)"
  by (simp add: linesIntersect_def Let_def orientation_left_edge onSegment_def)
     (simp add: bottom_def)

lemma fan_nth:
  "k \<le> 98 \<Longrightarrow> (fan_ring @ [fan_ring ! 0]) ! k = bottom k"
  "(fan_ring @ [fan_ring ! 0]) ! 99 = apex"
  "(fan_ring @ [fan_ring ! 0]) ! 100 = bottom 0"
  by (simp_all add: fan_ring_def nth_append)

lemma fan_not_self_intersecting: "\<not> isSelfIntersecting (fan_ring @ [fan_ring ! 0])"
proof -
  have len: "length (fan_ring @ [fan_ring ! 0]) = 101" by (simp add: fan_ring_def)
  have apart: "\<not> linesIntersect
             ((fan_ring @ [fan_ring ! 0]) ! i, (fan_ring @ [fan_ring ! 0]) ! (i + 1))
             ((fan_ring @ [fan_ring ! 0]) ! j, (fan_ring @ [fan_ring ! 0]) ! (j + 1))"
    if "i + 2 \<le> j" "j < 100" "\<not> (i = 0 \<and> j = 99)" for i j
  proof -
    from that have i: "i \<le> 97" by simp
    from that(2) have "j \<le> 97 \<or> j = 98 \<or> j = 99" by linarith
    then consider "j \<le> 97" | "j = 98" | "j = 99" by blast
    then show ?thesis
    proof cases
      case 1
      with i that(1) show ?thesis by (simp add: fan_nth bottom_edges_apart)
    next
      case 2
      with that(1) have "i \<le> 96" by simp
      with 2 show ?thesis by (simp add: fan_nth bottom_edge_right_edge)
    next
      case 3
      with that(3) have "1 \<le> i" by simp
      with 3 i show ?thesis by (simp add: fan_nth bottom_edge_left_edge)
    qed
  qed
  show ?thesis
  proof
    assume "isSelfIntersecting (fan_ring @ [fan_ring ! 0])"
    then obtain i j where ij: "i + 2 \<le> j" "j < 100" "\<not> (i = 0 \<and> j = 99)"
      and hit: "linesIntersect
             ((fan_ring @ [fan_ring ! 0]) ! i, (fan_ring @ [fan_ring ! 0]) ! (i + 1))
             ((fan_ring @ [fan_ring ! 0]) ! j, (fan_ring @ [fan_ring ! 0]) ! (j + 1))"
      unfolding isSelfIntersecting_def len by (auto simp: list_ex_iff)
    from apart[OF ij] hit show False by blast
  qed
qed

lemma fan_valid: "validateEach 0 fan_ring = None"
proof (rule validateEach_valid, rule ballI)
  fix c assume "c \<in> set fan_ring"
  then consider k where "k < 99" "c = bottom k" | "c = apex"
    by (auto simp: fan_ring_def)
  then show "validateCoordinate c = None"
  proof cases
    case 1
    then have "real k / 100000 \<le> 180" by simp
    with 1 show ?thesis by (simp add: validateCoordinate_def bottom_def)
  next
    case 2
    then show ?thesis by (simp add: validateCoordinate_def apex_def)
  qed
qed

lemma fan_passes_polygon_checks:
  "validateZonePolygon fan_ring = Inr (fan_ring @ [fan_ring ! 0])"
proof -
  have len: "length fan_ring = 100" by (simp add: fan_ring_def)
  have ends: "fan_ring ! 0 = bottom 0" "fan_ring ! 99 = apex"
    by (simp_all add: fan_ring_def nth_append)
  show ?thesis
    using fan_valid fan_not_self_intersecting area_fan_bounds ring_open
    by (simp add: validateZonePolygon_def Let_def len ends)
qed

lemma request_fields_valid: "validateZoneCreationRequest (zone_request ring) = None"
  by (simp add: validateZoneCreationRequest_def validateZoneName_def zone_request_def
                nameChar_def)

lemma triangle_valid: "\<forall>c \<in> set thin_triangle. validateCoordinate c = None"
  by (simp add: thin_triangle_def validateCoordinate_def bottom_def apex_def)
lemma calculateBoundingBox_nonempty:
  "coordinates \<noteq> [] \<Longrightarrow> \<exists>box. calculateBoundingBox coordinates = Inr box"
  by (cases coordinates) (simp_all add: calculateBoundingBox_def)

text \<open>
  C1, as the code has it. \<open>createZone\<close> runs \<open>validateFourCoordinatePolygon\<close> on the ring
  that \<open>validateZonePolygon\<close> leaves, so a ring is accepted only with 4 coordinates, or
  with 5 of which the last matches the first. A ring handed in with 2 or fewer
  coordinates, or with 6 or more (100 and 101 among them), is rejected with a
  \<open>ZoneValidationError\<close> and nothing is changed. A ring of exactly 3 valid vertices
  that is not closed already is closed to 4 coordinates and the zone is created, when the
  request is otherwise valid, the area of the closed ring is between 100 and \<open>10^9\<close>
  square metres, no active zone returned by the index overlaps it, and the first attempt
  of the read and of the write reaches the index.
\<close>

theorem C1_accepted_ring_sizes:
  "(length (q_coordinates request) \<le> 2 \<or> 6 \<le> length (q_coordinates request) \<longrightarrow>
      (\<exists>msg. ZoneManagementService_createZone pg asStored readEnv writeEnv intersects now newId
                zms collection request = (Inl (ZoneValidationError msg), zms, collection))) \<and>
   (validateZoneCreationRequest request = None \<and>
    length (q_coordinates request) = 3 \<and>
    (\<forall>c \<in> set (q_coordinates request). validateCoordinate c = None) \<and>
    \<not> calculateDistance (q_coordinates request ! 0) (q_coordinates request ! 2) < 1 / 1000 \<and>
    100 \<le> calculatePolygonArea (q_coordinates request @ [q_coordinates request ! 0]) \<and>
    calculatePolygonArea (q_coordinates request @ [q_coordinates request ! 0]) \<le> 1000000000 \<and>
    (\<forall>box objects z. intersects box = Some objects \<longrightarrow>
        z \<in> set (parseZonesFromTile38Results pg objects) \<longrightarrow>
        \<not> polygonsOverlap (q_coordinates request @ [q_coordinates request ! 0])
             (z_coordinates z)) \<and>
    connUp readEnv 0 Primary \<and> \<not> commandFails readEnv 0 \<and>
    connUp writeEnv 0 Primary \<and> \<not> commandFails writeEnv 0 \<longrightarrow>
      (\<exists>zone. fst (ZoneManagementService_createZone pg asStored readEnv writeEnv intersects now
                      newId zms collection request) = Inr zone \<and>
              z_coordinates zone = q_coordinates request @ [q_coordinates request ! 0] \<and>
              z_id zone = newId \<and> z_status zone = ACTIVE))"
proof (intro conjI impI)
  assume "length (q_coordinates request) \<le> 2 \<or> 6 \<le> length (q_coordinates request)"
  then show "\<exists>msg. ZoneManagementService_createZone pg asStored readEnv writeEnv intersects
                     now newId zms collection request =
                   (Inl (ZoneValidationError msg), zms, collection)"
    by (rule createZone_rejects_length)
next
  assume h: "validateZoneCreationRequest request = None \<and>
    length (q_coordinates request) = 3 \<and>
    (\<forall>c \<in> set (q_coordinates request). validateCoordinate c = None) \<and>
    \<not> calculateDistance (q_coordinates request ! 0) (q_coordinates request ! 2) < 1 / 1000 \<and>
    100 \<le> calculatePolygonArea (q_coordinates request @ [q_coordinates request ! 0]) \<and>
    calculatePolygonArea (q_coordinates request @ [q_coordinates request ! 0]) \<le> 1000000000 \<and>
    (\<forall>box objects z. intersects box = Some objects \<longrightarrow>
        z \<in> set (parseZonesFromTile38Results pg objects) \<longrightarrow>
        \<not> polygonsOverlap (q_coordinates request @ [q_coordinates request ! 0])
             (z_coordinates z)) \<and>
    connUp readEnv 0 Primary \<and> \<not> commandFails readEnv 0 \<and>
    connUp writeEnv 0 Primary \<and> \<not> commandFails writeEnv 0"
  show "\<exists>zone. fst (ZoneManagementService_createZone pg asStored readEnv writeEnv intersects now
                      newId zms collection request) = Inr zone \<and>
              z_coordinates zone = q_coordinates request @ [q_coordinates request ! 0] \<and>
              z_id zone = newId \<and> z_status zone = ACTIVE"
    by (rule createZone_accepts_triangle) (use h in blast)+
qed

theorem C1_accepted_ring_sizes_witness:
  "(\<exists>zone. fst (ZoneManagementService_createZone (\<lambda>s. None) stored_form all_up all_up
                   (\<lambda>box. None) 1700000000000 ''zone-uuid'' fresh_manager Map.empty
                   (zone_request thin_triangle)) = Inr zone \<and>
           z_coordinates zone = [bottom 0, bottom 100, apex, bottom 0]) \<and>
   (\<exists>msg. ZoneManagementService_createZone (\<lambda>s. None) stored_form all_up all_up
             (\<lambda>box. None) 1700000000000 ''zone-uuid'' fresh_manager Map.empty
             (zone_request [bottom 0, apex]) =
           (Inl (ZoneValidationError msg), fresh_manager, Map.empty))"
proof -
  have tri: "q_coordinates (zone_request thin_triangle) = [bottom 0, bottom 100, apex]"
    by (simp add: zone_request_def thin_triangle_def)
  have h: "validateZoneCreationRequest (zone_request thin_triangle) = None \<and>
    length (q_coordinates (zone_request thin_triangle)) = 3 \<and>
    (\<forall>c \<in> set (q_coordinates (zone_request thin_triangle)). validateCoordinate c = None) \<and>
    \<not> calculateDistance (q_coordinates (zone_request thin_triangle) ! 0)
         (q_coordinates (zone_request thin_triangle) ! 2) < 1 / 1000 \<and>
    100 \<le> calculatePolygonArea (q_coordinates (zone_request thin_triangle) @
                                  [q_coordinates (zone_request thin_triangle) ! 0]) \<and>
    calculatePolygonArea (q_coordinates (zone_request thin_triangle) @
                            [q_coordinates (zone_request thin_triangle) ! 0]) \<le> 1000000000 \<and>
    (\<forall>box objects z. (\<lambda>box. None) box = Some objects \<longrightarrow>
        z \<in> set (parseZonesFromTile38Results (\<lambda>s. None) objects) \<longrightarrow>
        \<not> polygonsOverlap (q_coordinates (zone_request thin_triangle) @
                             [q_coordinates (zone_request thin_triangle) ! 0])
             (z_coordinates z)) \<and>
    connUp all_up 0 Primary \<and> \<not> commandFails all_up 0 \<and>
    connUp all_up 0 Primary \<and> \<not> commandFails all_up 0"
    using request_fields_valid[of thin_triangle] triangle_valid ring_open area_triangle_bounds
    by (simp add: tri all_up_def) (simp add: thin_triangle_def)
  have short: "length (q_coordinates (zone_request [bottom 0, apex])) \<le> 2"
    by (simp add: zone_request_def)
  from C1_accepted_ring_sizes[of "zone_request thin_triangle" "\<lambda>s. None" stored_form all_up
         all_up "\<lambda>box. None" 1700000000000 "''zone-uuid''" fresh_manager Map.empty] h
  have a: "\<exists>zone. fst (ZoneManagementService_createZone (\<lambda>s. None) stored_form all_up all_up
                   (\<lambda>box. None) 1700000000000 ''zone-uuid'' fresh_manager Map.empty
                   (zone_request thin_triangle)) = Inr zone \<and>
           z_coordinates zone = [bottom 0, bottom 100, apex, bottom 0]"
    by (auto simp: tri)
  from C1_accepted_ring_sizes[of "zone_request [bottom 0, apex]" "\<lambda>s. None" stored_form all_up
         all_up "\<lambda>box. None" 1700000000000 "''zone-uuid''" fresh_manager Map.empty] short
  have b: "\<exists>msg. ZoneManagementService_createZone (\<lambda>s. None) stored_form all_up all_up
             (\<lambda>box. None) 1700000000000 ''zone-uuid'' fresh_manager Map.empty
             (zone_request [bottom 0, apex]) =
           (Inl (ZoneValidationError msg), fresh_manager, Map.empty)"
    by blast
  from a b show ?thesis by blast
qed

theorem C1_hundred_vertices_counterexample:
  "length fan_ring = 100 \<and>
   validateZonePolygon fan_ring = Inr (fan_ring @ [fan_ring ! 0]) \<and>
   ZoneManagementService_createZone (\<lambda>s. None) stored_form all_up all_up (\<lambda>box. None)
     1700000000000 ''zone-uuid'' fresh_manager Map.empty (zone_request fan_ring) =
   (Inl (ZoneValidationError
           ''Zone must have exactly 4 coordinates (plus optional closing coordinate)''),
    fresh_manager, Map.empty)"
proof -
  have len: "length fan_ring = 100" by (simp add: fan_ring_def)
  then have "fan_ring \<noteq> []" by auto
  from calculateBoundingBox_nonempty[OF this] obtain box where
    box: "calculateBoundingBox fan_ring = Inr box" ..
  have four: "validateFourCoordinatePolygon (fan_ring @ [fan_ring ! 0]) =
          Some (ZoneValidationError
                  ''Zone must have exactly 4 coordinates (plus optional closing coordinate)'')"
    by (simp add: validateFourCoordinatePolygon_def len)
  have "ZoneManagementService_createZone (\<lambda>s. None) stored_form all_up all_up (\<lambda>box. None)
     1700000000000 ''zone-uuid'' fresh_manager Map.empty (zone_request fan_ring) =
   (Inl (ZoneValidationError
           ''Zone must have exactly 4 coordinates (plus optional closing coordinate)''),
    fresh_manager, Map.empty)"
    using request_fields_valid[of fan_ring] box fan_passes_polygon_checks four
    by (simp add: ZoneManagementService_createZone_def zone_request_def)
  with len fan_passes_polygon_checks show ?thesis by blast
qed

end
